theory Spec2Isabelle
  imports Complex_Main "HOL-Library.Sublist" "HOL-Library.Char_ord" "HOL-Library.List_Lexorder"
    "HOL-Library.Log_Nat" "HOL-Library.Word"
begin

section \<open>The Go library functions the proxy calls\<close>

text \<open>
  The reverse proxy (\<^verbatim>\<open>reverse-proxy.go\<close>, the Go program of the
  browser-use example) works on Go strings, which are byte sequences: a
  \<^typ>\<open>string\<close> here. The functions of package \<^verbatim>\<open>strings\<close>,
  \<^verbatim>\<open>strconv\<close> and \<^verbatim>\<open>net\<close> it calls are written out as
  the library documents them.
\<close>

text \<open>\<^verbatim>\<open>strings.Contains(s, substr)\<close>: \<open>substr\<close> occurs at some position of \<open>s\<close>.\<close>

fun Contains :: "string \<Rightarrow> string \<Rightarrow> bool" where
  "Contains [] substr = (substr = [])"
| "Contains (x # xs) substr = (prefix substr (x # xs) \<or> Contains xs substr)"

text \<open>
  \<^verbatim>\<open>strings.Replace(s, old, new, 1)\<close>: the source passes the count \<open>1\<close> at both
  of its calls, so only the leftmost occurrence of \<open>old\<close> is replaced (an empty \<open>old\<close>
  matches at the start of the string).
\<close>

fun Replace :: "string \<Rightarrow> string \<Rightarrow> string \<Rightarrow> string" where
  "Replace [] old new = (if old = [] then new else [])"
| "Replace (x # xs) old new =
     (if prefix old (x # xs) then new @ drop (length old) (x # xs)
      else x # Replace xs old new)"

text \<open>
  \<^verbatim>\<open>strings.Split(s, ":")\<close>: the source splits at the one-byte separator
  \<^verbatim>\<open>":"\<close> only, so the separator is a \<^typ>\<open>char\<close>. The result is never
  empty; the \<open>[]\<close> branch of the case is not reachable.
\<close>

fun Split :: "string \<Rightarrow> char \<Rightarrow> string list" where
  "Split [] sep = [[]]"
| "Split (x # xs) sep =
     (if x = sep then [] # Split xs sep
      else (case Split xs sep of [] \<Rightarrow> [[x]] | y # ys \<Rightarrow> (x # y) # ys))"

text \<open>
  \<^verbatim>\<open>strings.ToLower\<close> on the ASCII letters \<open>A\<close> to \<open>Z\<close> (bytes 65 to 90);
  every other byte is kept. Go also lower-cases letters outside ASCII: header values that
  hold such letters are outside this model.
\<close>

definition lower_byte :: "char \<Rightarrow> char" where
  "lower_byte c =
     (if (65::nat) \<le> of_char c \<and> of_char c \<le> (90::nat)
      then char_of (of_char c + (32::nat)) else c)"

definition ToLower :: "string \<Rightarrow> string" where
  "ToLower s = map lower_byte s"

text \<open>\<^verbatim>\<open>strconv.Itoa\<close>: the decimal digits of an integer.\<close>

fun digits :: "nat \<Rightarrow> string" where
  "digits n =
     (if n < 10 then [char_of (48 + n)]
      else digits (n div 10) @ [char_of (48 + n mod 10)])"

declare digits.simps [simp del]

definition Itoa :: "int \<Rightarrow> string" where
  "Itoa i = (if i < 0 then CHR ''-'' # digits (nat (- i)) else digits (nat i))"

text \<open>
  \<^verbatim>\<open>net.JoinHostPort\<close>: a host with a colon or a percent sign is put in
  square brackets.
\<close>

definition JoinHostPort :: "string \<Rightarrow> string \<Rightarrow> string" where
  "JoinHostPort host port =
     (if CHR '':'' \<in> set host \<or> CHR ''%'' \<in> set host
      then ''['' @ host @ '']:'' @ port
      else host @ '':'' @ port)"

section \<open>The URL rewriter\<close>

text \<open>
  A Go panic is a value: indexing a slice out of range stops the function. The only place
  of the proxy that can panic is \<^verbatim>\<open>strings.Split(targetHostPort, ":")[1]\<close>.
\<close>

datatype go_panic = IndexOutOfRange nat nat

definition index1 :: "string list \<Rightarrow> go_panic + string" where
  "index1 xs =
     (case xs of
        _ # y # _ \<Rightarrow> Inr y
      | _ \<Rightarrow> Inl (IndexOutOfRange 1 (length xs)))"

text \<open>
  \<^verbatim>\<open>strings.Split(targetHostPort, ":")[1]\<close> is \<open>port_of\<close>; the three patterns
  of \<^verbatim>\<open>rewriteWebSocketURL\<close> follow in the order of the source. Building the
  patterns is the first thing the function does, so a panic there ends it whatever the URL.
\<close>

definition port_of :: "string \<Rightarrow> go_panic + string" where
  "port_of targetHostPort = index1 (Split targetHostPort CHR '':'')"

definition patterns :: "string \<Rightarrow> go_panic + string list" where
  "patterns targetHostPort =
     (case port_of targetHostPort of
        Inl e \<Rightarrow> Inl e
      | Inr port \<Rightarrow>
          Inr [''ws://'' @ targetHostPort,
               ''ws://127.0.0.1:'' @ port,
               ''ws://localhost:'' @ port])"

text \<open>
  The loop over the patterns: the first pattern that occurs in the URL is replaced, once,
  by \<^verbatim>\<open>wss://<publicHostPort>\<close>; when none occurs the URL is returned as it is
  (the source logs a warning there).
\<close>

fun rewrite_loop :: "string list \<Rightarrow> string \<Rightarrow> string \<Rightarrow> string" where
  "rewrite_loop [] originalURL publicHostPort = originalURL"
| "rewrite_loop (pattern # rest) originalURL publicHostPort =
     (if Contains originalURL pattern
      then Replace originalURL pattern (''wss://'' @ publicHostPort)
      else rewrite_loop rest originalURL publicHostPort)"

definition rewriteWebSocketURL :: "string \<Rightarrow> string \<Rightarrow> string \<Rightarrow> go_panic + string" where
  "rewriteWebSocketURL originalURL targetHostPort publicHostPort =
     (case patterns targetHostPort of
        Inl e \<Rightarrow> Inl e
      | Inr ps \<Rightarrow> Inr (rewrite_loop ps originalURL publicHostPort))"

section \<open>Documents, values and responses\<close>

text \<open>
  The body of an upstream response that passed the scanner of
  \<^verbatim>\<open>encoding/json\<close> is a JSON document: the members of an object in the order
  they are written, a name as often as it is written, and each number as its literal
  together with the exact value the literal stands for. A string is the string the decoder
  reads from its literal.
\<close>

datatype json =
    JNull
  | JBool bool
  | JNumber string rat
  | JString string
  | JArray "json list"
  | JObject "(string \<times> json) list"

text \<open>
  A value of Go type \<^verbatim>\<open>interface{}\<close> is its dynamic type together with its
  value. \<^verbatim>\<open>json.Unmarshal\<close> builds \<open>GoNil\<close> (null), \<open>GoBool\<close>,
  \<open>GoFloat64\<close>, \<open>GoString\<close>, \<open>GoSlice\<close> and \<open>GoMap\<close>; the metrics and
  health handlers also store \<^verbatim>\<open>int64\<close> values. A \<^verbatim>\<open>float64\<close> is
  the rational number it stands for. A Go map has one value for a key and no order of its
  own; it is kept as an association list in the order of its keys, which is the order
  \<^verbatim>\<open>json.Marshal\<close> writes it in. It is read with \<^const>\<open>map_of\<close>, and
  \<open>assign k v m\<close> is the assignment \<^verbatim>\<open>m[k] = v\<close>.
\<close>

datatype go_value =
    GoNil
  | GoBool bool
  | GoFloat64 rat
  | GoInt64 "64 word"
  | GoString string
  | GoSlice "go_value list"
  | GoMap "(string \<times> go_value) list"

type_synonym go_map = "(string \<times> go_value) list"

fun assign :: "string \<Rightarrow> go_value \<Rightarrow> go_map \<Rightarrow> go_map" where
  "assign k v [] = [(k, v)]"
| "assign k v ((k', v') # m) =
     (if k = k' then (k, v) # m
      else if k < k' then (k, v) # (k', v') # m
      else (k', v') # assign k v m)"

text \<open>
  The decoder turns a number into a \<^verbatim>\<open>float64\<close> with
  \<^verbatim>\<open>strconv.ParseFloat\<close>: the nearest \<^verbatim>\<open>float64\<close> value, a tie
  going to the even mantissa, and a range error from half a step above the largest
  \<^verbatim>\<open>float64\<close> value on. The \<^verbatim>\<open>float64\<close> values are the multiples
  \<open>m * 2 ^ s\<close> of \<open>2 ^ - 1074\<close> with \<open>m < 2 ^ 53\<close>, so the step at \<open>b\<close> such
  multiples is \<open>2 ^ s\<close>, where \<open>s\<close> is what the bit length of \<open>b\<close> exceeds 53 by.
  A number too small for a \<^verbatim>\<open>float64\<close> becomes zero, with no error; the sign
  of a zero is not kept.
\<close>

definition round_even :: "rat \<Rightarrow> int" where
  "round_even x =
     (let f = \<lfloor>x\<rfloor>; d = x - of_int f
      in if d < 1 / 2 then f
         else if 1 / 2 < d then f + 1
         else if even f then f else f + 1)"

definition ParseFloat_abs :: "rat \<Rightarrow> rat option" where
  "ParseFloat_abs a =
     (if 2 ^ 1024 - 2 ^ 970 \<le> a then None
      else (let b = a * 2 ^ 1074;
                s = nat (bitlen \<lfloor>b\<rfloor> - 53)
            in Some (of_int (round_even (b / 2 ^ s) * 2 ^ s) / 2 ^ 1074)))"

definition ParseFloat :: "rat \<Rightarrow> rat option" where
  "ParseFloat q =
     (if q < 0 then map_option uminus (ParseFloat_abs (- q)) else ParseFloat_abs q)"

text \<open>
  \<^verbatim>\<open>json.Unmarshal\<close> into an \<^verbatim>\<open>interface{}\<close>. A number outside the
  range of \<^verbatim>\<open>float64\<close> is an error, whose text names the literal; the
  members of an object are assigned to the map one after the other, so a repeated name
  keeps its last value. The decoder goes on after such an error
  and reports the first one: so does the model, which stops at it.
\<close>

fun collect :: "(string + 'a) list \<Rightarrow> string + 'a list" where
  "collect [] = Inr []"
| "collect (x # xs) =
     (case x of
        Inl err \<Rightarrow> Inl err
      | Inr v \<Rightarrow>
          (case collect xs of
             Inl err \<Rightarrow> Inl err
           | Inr vs \<Rightarrow> Inr (v # vs)))"

fun build_map :: "(string \<times> (string + go_value)) list \<Rightarrow> go_map \<Rightarrow> string + go_map" where
  "build_map [] acc = Inr acc"
| "build_map (kx # ms) acc =
     (case snd kx of
        Inl err \<Rightarrow> Inl err
      | Inr v \<Rightarrow> build_map ms (assign (fst kx) v acc))"

fun Unmarshal_value :: "json \<Rightarrow> string + go_value" where
  "Unmarshal_value JNull = Inr GoNil"
| "Unmarshal_value (JBool b) = Inr (GoBool b)"
| "Unmarshal_value (JNumber lit q) =
     (case ParseFloat q of
        None \<Rightarrow> Inl (''json: cannot unmarshal number '' @ lit
                     @ '' into Go value of type float64'')
      | Some f \<Rightarrow> Inr (GoFloat64 f))"
| "Unmarshal_value (JString s) = Inr (GoString s)"
| "Unmarshal_value (JArray xs) =
     (case collect (map Unmarshal_value xs) of
        Inl err \<Rightarrow> Inl err
      | Inr vs \<Rightarrow> Inr (GoSlice vs))"
| "Unmarshal_value (JObject ms) =
     (case build_map (map (\<lambda>kj. (fst kj, Unmarshal_value (snd kj))) ms) [] of
        Inl err \<Rightarrow> Inl err
      | Inr m \<Rightarrow> Inr (GoMap m))"

definition Unmarshal_object :: "(string \<times> json) list \<Rightarrow> string + go_map" where
  "Unmarshal_object ms = build_map (map (\<lambda>kj. (fst kj, Unmarshal_value (snd kj))) ms) []"

text \<open>
  A variable of type \<^verbatim>\<open>map[string]interface{}\<close> holds a map or is nil
  (\<open>None\<close>); reading a nil map finds no key. \<^verbatim>\<open>json.Unmarshal\<close> into such
  a variable takes an object, leaves the variable nil on \<^verbatim>\<open>null\<close>, and
  reports a type error on anything else. Into \<^verbatim>\<open>[]map[string]interface{}\<close>
  it takes an array whose elements are objects or \<^verbatim>\<open>null\<close>, and reports the
  first error in the order of the document.
\<close>

fun json_kind :: "json \<Rightarrow> string" where
  "json_kind JNull = ''null''"
| "json_kind (JBool b) = ''bool''"
| "json_kind (JNumber lit q) = ''number''"
| "json_kind (JString s) = ''string''"
| "json_kind (JArray xs) = ''array''"
| "json_kind (JObject ms) = ''object''"

definition type_error :: "json \<Rightarrow> string \<Rightarrow> string" where
  "type_error v ty = ''json: cannot unmarshal '' @ json_kind v @ '' into Go value of type '' @ ty"

fun Unmarshal_map :: "json \<Rightarrow> string + go_map option" where
  "Unmarshal_map JNull = Inr None"
| "Unmarshal_map (JObject ms) =
     (case Unmarshal_object ms of
        Inl err \<Rightarrow> Inl err
      | Inr m \<Rightarrow> Inr (Some m))"
| "Unmarshal_map v = Inl (type_error v ''map[string]interface {}'')"

fun Unmarshal_elems :: "json list \<Rightarrow> string + go_map option list" where
  "Unmarshal_elems [] = Inr []"
| "Unmarshal_elems (x # xs) =
     (case Unmarshal_map x of
        Inl err \<Rightarrow> Inl err
      | Inr t \<Rightarrow>
          (case Unmarshal_elems xs of
             Inl err \<Rightarrow> Inl err
           | Inr ts \<Rightarrow> Inr (t # ts)))"

fun Unmarshal_slice :: "json \<Rightarrow> string + go_map option list option" where
  "Unmarshal_slice JNull = Inr None"
| "Unmarshal_slice (JArray xs) =
     (case Unmarshal_elems xs of
        Inl err \<Rightarrow> Inl err
      | Inr ts \<Rightarrow> Inr (Some ts))"
| "Unmarshal_slice v = Inl (type_error v ''[]map[string]interface {}'')"

text \<open>
  \<^verbatim>\<open>json.Marshal\<close> of the two variables: a nil map and a nil slice are
  \<^verbatim>\<open>null\<close>. Marshal fails only on values that \<^typ>\<open>go_value\<close> does not
  have (channels, functions, cycles, floats that are not finite), so the handlers' branch
  for an encoding error has no input in this model.
\<close>

fun Marshal_map :: "go_map option \<Rightarrow> go_value" where
  "Marshal_map None = GoNil"
| "Marshal_map (Some m) = GoMap m"

fun Marshal_slice :: "go_map option list option \<Rightarrow> go_value" where
  "Marshal_slice None = GoNil"
| "Marshal_slice (Some ts) = GoSlice (map Marshal_map ts)"

text \<open>
  A response is its status code and its body. A body is either literal bytes, or the JSON
  encoding of a value, with the keys of every map in their order (\<open>EncodedLine\<close> when
  \<^verbatim>\<open>Encoder.Encode\<close> wrote it, which ends the encoding with a newline).
  Response headers and the log are left out: no statement below is about them.
\<close>

datatype body = Literal string | Encoded go_value | EncodedLine go_value

record response =
  status :: nat
  body :: body

text \<open>\<^verbatim>\<open>http.Error(w, msg, code)\<close> writes the message and a newline.\<close>

definition http_Error :: "string \<Rightarrow> nat \<Rightarrow> response" where
  "http_Error msg code = \<lparr>status = code, body = Literal (msg @ [CHR 0x0A])\<rparr>"

record request =
  Method :: string
  Path :: string
  Host :: string
  Header :: "(string \<times> string list) list"

text \<open>
  \<^verbatim>\<open>Header.Get\<close>: the first value stored under the key, or the empty string.
  The server stores header names in their canonical form, which \<^verbatim>\<open>Upgrade\<close>
  and \<^verbatim>\<open>Connection\<close> already are.
\<close>

definition Header_Get :: "(string \<times> string list) list \<Rightarrow> string \<Rightarrow> string" where
  "Header_Get h key =
     (case map_of h key of
        Some (v # _) \<Rightarrow> v
      | _ \<Rightarrow> [])"

definition isWebSocketUpgrade :: "request \<Rightarrow> bool" where
  "isWebSocketUpgrade r =
     (ToLower (Header_Get (Header r) ''Upgrade'') = ''websocket'' \<and>
      Contains (ToLower (Header_Get (Header r) ''Connection'')) ''upgrade'')"

section \<open>The client and what the world answers\<close>

text \<open>
  \<^verbatim>\<open>ChromeDevToolsClient\<close>: the HTTP client is its timeout, the reverse proxy
  is its target; the counters are \<^verbatim>\<open>int64\<close>, so \<open>+ 1\<close> wraps around.
\<close>

record ChromeDevToolsClient =
  targetHostPort :: string
  clientTimeout :: int
  proxyTarget :: string
  requestCount :: "64 word"
  errorCount :: "64 word"
  startTime :: int

definition NewChromeDevToolsClient :: "int \<Rightarrow> int \<Rightarrow> int \<Rightarrow> ChromeDevToolsClient" where
  "NewChromeDevToolsClient port timeoutSec now =
     (let hostPort = JoinHostPort ''localhost'' (Itoa port)
      in \<lparr>targetHostPort = hostPort, clientTimeout = timeoutSec, proxyTarget = hostPort,
          requestCount = 0, errorCount = 0, startTime = now\<rparr>)"

text \<open>
  What happens outside the proxy while it serves one request is an input: the outcome of
  \<^verbatim>\<open>c.client.Get\<close>, \<^verbatim>\<open>io.ReadAll\<close> and the scanner of
  \<^verbatim>\<open>encoding/json\<close>, which rejects a body that is not JSON (\<open>upstream\<close>), the outcome of the reverse proxy's round trip (\<open>forwarded\<close>), and
  the clock readings the health and metrics handlers print.
\<close>

datatype upstream_reply =
    GetFailed string
  | ReadFailed string
  | NotJson string
  | JsonDoc json

datatype forward_result = ForwardFailed string | Forwarded response

record env =
  upstream :: upstream_reply
  forwarded :: forward_result
  uptime_String :: string
  uptime_Seconds :: rat
  unix_now :: "64 word"

text \<open>A handler returns the client as it left it, and a response or the panic that ended it.\<close>

datatype outcome = Response response | Panicked go_panic

section \<open>The handlers\<close>

definition count_error :: "ChromeDevToolsClient \<Rightarrow> ChromeDevToolsClient" where
  "count_error c = c\<lparr>errorCount := errorCount c + 1\<rparr>"

text \<open>
  \<^verbatim>\<open>handleHealth\<close>: a failed \<^verbatim>\<open>Get\<close> answers 503; anything else
  answers 200 with the uptime, the target and the time. The maps the health and metrics
  handlers encode are listed by key, as every map is.
\<close>

definition handleHealth :: "ChromeDevToolsClient \<Rightarrow> request \<Rightarrow> env \<Rightarrow> ChromeDevToolsClient \<times> outcome" where
  "handleHealth c r e =
     (case upstream e of
        GetFailed err \<Rightarrow>
          (c, Response \<lparr>status = 503,
                body = EncodedLine (GoMap [(''error'', GoString err),
                                           (''status'', GoString ''unhealthy'')])\<rparr>)
      | _ \<Rightarrow>
          (c, Response \<lparr>status = 200,
                body = EncodedLine (GoMap [(''status'', GoString ''healthy''),
                                           (''target'', GoString (targetHostPort c)),
                                           (''timestamp'', GoInt64 (unix_now e)),
                                           (''uptime'', GoString (uptime_String e))])\<rparr>))"

definition handleMetrics :: "ChromeDevToolsClient \<Rightarrow> request \<Rightarrow> env \<Rightarrow> ChromeDevToolsClient \<times> outcome" where
  "handleMetrics c r e =
     (c, Response \<lparr>status = 200,
           body = EncodedLine (GoMap [(''errors_total'', GoInt64 (errorCount c)),
                                      (''requests_total'', GoInt64 (requestCount c)),
                                      (''target_host'', GoString (targetHostPort c)),
                                      (''uptime_seconds'', GoFloat64 (uptime_Seconds e))])\<rparr>)"

text \<open>
  The rewrite of \<^verbatim>\<open>webSocketDebuggerUrl\<close>, which both discovery handlers hold
  a copy of: only a value that is a string is rewritten.
\<close>

definition rewrite_ws_field :: "go_map \<Rightarrow> string \<Rightarrow> string \<Rightarrow> go_panic + go_map" where
  "rewrite_ws_field target thp publicHostPort =
     (case map_of target ''webSocketDebuggerUrl'' of
        Some (GoString wsURLStr) \<Rightarrow>
          (case rewriteWebSocketURL wsURLStr thp publicHostPort of
             Inl p \<Rightarrow> Inl p
           | Inr newWSURL \<Rightarrow>
               Inr (assign ''webSocketDebuggerUrl'' (GoString newWSURL) target))
      | _ \<Rightarrow> Inr target)"

text \<open>The rewrite of \<^verbatim>\<open>devtoolsFrontendUrl\<close> in the list handler.\<close>

definition rewrite_dev_field :: "go_map \<Rightarrow> string \<Rightarrow> string \<Rightarrow> go_map" where
  "rewrite_dev_field target thp publicHostPort =
     (case map_of target ''devtoolsFrontendUrl'' of
        Some (GoString devURLStr) \<Rightarrow>
          assign ''devtoolsFrontendUrl''
            (GoString (Replace devURLStr (''ws='' @ thp) (''ws='' @ publicHostPort))) target
      | _ \<Rightarrow> target)"

definition rewrite_version :: "go_map option \<Rightarrow> string \<Rightarrow> string \<Rightarrow> go_panic + go_map option" where
  "rewrite_version versionData thp publicHostPort =
     (case versionData of
        None \<Rightarrow> Inr None
      | Some m \<Rightarrow>
          (case rewrite_ws_field m thp publicHostPort of
             Inl p \<Rightarrow> Inl p
           | Inr m' \<Rightarrow> Inr (Some m')))"

text \<open>The body of the list handler's loop, and the loop.\<close>

definition rewrite_target :: "go_map option \<Rightarrow> string \<Rightarrow> string \<Rightarrow> go_panic + go_map option" where
  "rewrite_target target thp publicHostPort =
     (case target of
        None \<Rightarrow> Inr None
      | Some m \<Rightarrow>
          (case rewrite_ws_field (rewrite_dev_field m thp publicHostPort) thp publicHostPort of
             Inl p \<Rightarrow> Inl p
           | Inr m' \<Rightarrow> Inr (Some m')))"

fun rewrite_targets :: "go_map option list \<Rightarrow> string \<Rightarrow> string \<Rightarrow> go_panic + go_map option list" where
  "rewrite_targets [] thp publicHostPort = Inr []"
| "rewrite_targets (target # rest) thp publicHostPort =
     (case rewrite_target target thp publicHostPort of
        Inl p \<Rightarrow> Inl p
      | Inr target' \<Rightarrow>
          (case rewrite_targets rest thp publicHostPort of
             Inl p \<Rightarrow> Inl p
           | Inr rest' \<Rightarrow> Inr (target' # rest')))"

definition handleJsonVersion :: "ChromeDevToolsClient \<Rightarrow> request \<Rightarrow> env \<Rightarrow> ChromeDevToolsClient \<times> outcome" where
  "handleJsonVersion c r e =
     (case upstream e of
        GetFailed err \<Rightarrow>
          (count_error c, Response (http_Error (''Failed to get JSON version: '' @ err) 502))
      | ReadFailed err \<Rightarrow>
          (count_error c, Response (http_Error (''Failed to read response body: '' @ err) 500))
      | NotJson err \<Rightarrow>
          (count_error c, Response (http_Error (''Failed to unmarshal response body: '' @ err) 500))
      | JsonDoc v \<Rightarrow>
          (case Unmarshal_map v of
             Inl err \<Rightarrow>
               (count_error c,
                Response (http_Error (''Failed to unmarshal response body: '' @ err) 500))
           | Inr versionData \<Rightarrow>
               (case rewrite_version versionData (targetHostPort c) (Host r) of
                  Inl p \<Rightarrow> (c, Panicked p)
                | Inr versionData' \<Rightarrow>
                    (c, Response \<lparr>status = 200, body = Encoded (Marshal_map versionData')\<rparr>))))"

definition handleJsonList :: "ChromeDevToolsClient \<Rightarrow> request \<Rightarrow> env \<Rightarrow> ChromeDevToolsClient \<times> outcome" where
  "handleJsonList c r e =
     (case upstream e of
        GetFailed err \<Rightarrow>
          (count_error c, Response (http_Error (''Failed to get JSON list: '' @ err) 502))
      | ReadFailed err \<Rightarrow>
          (count_error c, Response (http_Error (''Failed to read response body: '' @ err) 500))
      | NotJson err \<Rightarrow>
          (count_error c, Response (http_Error (''Failed to unmarshal response body: '' @ err) 500))
      | JsonDoc v \<Rightarrow>
          (case Unmarshal_slice v of
             Inl err \<Rightarrow>
               (count_error c,
                Response (http_Error (''Failed to unmarshal response body: '' @ err) 500))
           | Inr None \<Rightarrow>
               (c, Response \<lparr>status = 200, body = Encoded (Marshal_slice None)\<rparr>)
           | Inr (Some targetsData) \<Rightarrow>
               (case rewrite_targets targetsData (targetHostPort c) (Host r) of
                  Inl p \<Rightarrow> (c, Panicked p)
                | Inr targetsData' \<Rightarrow>
                    (c, Response \<lparr>status = 200,
                          body = Encoded (Marshal_slice (Some targetsData'))\<rparr>))))"

text \<open>
  The reverse proxy of \<^verbatim>\<open>net/http/httputil\<close>. The source installs a
  \<^verbatim>\<open>Director\<close> and nothing else: no \<^verbatim>\<open>ErrorHandler\<close> and no
  \<^verbatim>\<open>ModifyResponse\<close>. So a failed round trip is answered by the library's
  default handler with 502 Bad Gateway and an empty body, the upstream's response is
  copied as it is, and neither touches the client's fields.
\<close>

definition proxy_ServeHTTP :: "ChromeDevToolsClient \<Rightarrow> request \<Rightarrow> env \<Rightarrow> ChromeDevToolsClient \<times> outcome" where
  "proxy_ServeHTTP c r e =
     (case forwarded e of
        ForwardFailed err \<Rightarrow> (c, Response \<lparr>status = 502, body = Literal []\<rparr>)
      | Forwarded resp \<Rightarrow> (c, Response resp))"

text \<open>\<^verbatim>\<open>ServeHTTP\<close>: the counter first, then the switch, case by case.\<close>

definition ServeHTTP :: "ChromeDevToolsClient \<Rightarrow> request \<Rightarrow> env \<Rightarrow> ChromeDevToolsClient \<times> outcome" where
  "ServeHTTP c0 r e =
     (let c = c0\<lparr>requestCount := requestCount c0 + 1\<rparr>
      in if Method r = ''GET'' \<and> Path r = ''/health'' then handleHealth c r e
         else if Method r = ''GET'' \<and> Path r = ''/metrics'' then handleMetrics c r e
         else if Method r = ''GET'' \<and> (Path r = ''/json/version'' \<or> Path r = ''/json/version/'')
           then handleJsonVersion c r e
         else if Method r = ''GET'' \<and>
                 (Path r = ''/json'' \<or> Path r = ''/json/'' \<or> Path r = ''/json/list'')
           then handleJsonList c r e
         else if isWebSocketUpgrade r then proxy_ServeHTTP c r e
         else proxy_ServeHTTP c r e)"

text \<open>
  Where a string occurs in a response: in the literal bytes, or in a key or a string of
  the encoded value.
\<close>

fun strings_of :: "go_value \<Rightarrow> string list" where
  "strings_of (GoString s) = [s]"
| "strings_of (GoSlice xs) = concat (map strings_of xs)"
| "strings_of (GoMap m) = concat (map (\<lambda>kv. fst kv # strings_of (snd kv)) m)"
| "strings_of v = []"

fun body_strings :: "body \<Rightarrow> string list" where
  "body_strings (Literal s) = [s]"
| "body_strings (Encoded v) = strings_of v"
| "body_strings (EncodedLine v) = strings_of v"

definition occurs_in :: "string \<Rightarrow> response \<Rightarrow> bool" where
  "occurs_in addr resp = list_ex (\<lambda>s. Contains s addr) (body_strings (body resp))"

text \<open>
  Two maps that agree except at the keys \<open>ks\<close>: the same keys at the same positions,
  and the same value at every position whose key is not in \<open>ks\<close>.
\<close>

definition same_but :: "string list \<Rightarrow> go_map \<Rightarrow> go_map \<Rightarrow> bool" where
  "same_but ks m m' =
     list_all2 (\<lambda>kv kv'. fst kv' = fst kv \<and> (snd kv' = snd kv \<or> fst kv \<in> set ks)) m m'"

section \<open>Facts about the library functions and the loop\<close>

lemma Contains_iff: "Contains s p \<longleftrightarrow> (\<exists>pre post. s = pre @ p @ post)"
proof (induction s)
  case Nil
  then show ?case by auto
next
  case (Cons x xs)
  show ?case
  proof
    assume "Contains (x # xs) p"
    then consider "prefix p (x # xs)" | "Contains xs p" by auto
    then show "\<exists>pre post. x # xs = pre @ p @ post"
    proof cases
      case 1
      then obtain post where "x # xs = p @ post" by (auto simp: prefix_def)
      then have "x # xs = [] @ p @ post" by simp
      then show ?thesis by blast
    next
      case 2
      with Cons.IH obtain pre post where "xs = pre @ p @ post" by blast
      then have "x # xs = (x # pre) @ p @ post" by simp
      then show ?thesis by blast
    qed
  next
    assume "\<exists>pre post. x # xs = pre @ p @ post"
    then obtain pre post where eq: "x # xs = pre @ p @ post" by blast
    show "Contains (x # xs) p"
    proof (cases pre)
      case Nil
      with eq have "prefix p (x # xs)" by (simp add: prefix_def)
      then show ?thesis by simp
    next
      case (Cons y ys)
      with eq have "xs = ys @ p @ post" by simp
      with Cons.IH have "Contains xs p" by blast
      then show ?thesis by simp
    qed
  qed
qed

lemma Contains_prefix: "prefix p s \<Longrightarrow> Contains s p"
  by (cases s) auto

lemma Contains_append_left: "Contains s (a @ b) \<Longrightarrow> Contains s a"
  by (induction s) (auto dest: append_prefixD)

lemma Replace_prefix: "Replace (p @ s) p new = new @ s"
proof (cases "p @ s")
  case Nil
  then show ?thesis by simp
next
  case (Cons a list)
  have "prefix p (a # list)" unfolding Cons [symmetric] by simp
  then have "Replace (a # list) p new = new @ drop (length p) (a # list)" by simp
  then show ?thesis unfolding Cons [symmetric] by simp
qed

lemma Replace_absent: "\<not> Contains s old \<Longrightarrow> Replace s old new = s"
  by (induction s) auto

lemma Replace_first:
  assumes "p \<noteq> []" and "\<not> Contains (pre @ butlast p) p"
  shows "Replace (pre @ p @ post) p new = pre @ new @ post"
  using assms
proof (induction pre)
  case Nil
  then show ?case by (simp add: Replace_prefix)
next
  case (Cons x pre)
  from Cons.prems have np: "\<not> prefix p (x # pre @ butlast p)"
    and nc: "\<not> Contains (pre @ butlast p) p" by auto
  have "\<not> prefix p (x # pre @ p @ post)"
  proof
    assume pr: "prefix p (x # pre @ p @ post)"
    have "x # pre @ p @ post = (x # pre @ butlast p) @ (last p # post)"
      using \<open>p \<noteq> []\<close> by simp
    with pr have "prefix p ((x # pre @ butlast p) @ (last p # post))" by simp
    moreover have "length p \<le> length (x # pre @ butlast p)" by simp
    ultimately have "prefix p (x # pre @ butlast p)"
      by (metis prefix_length_prefix prefixI)
    with np show False by blast
  qed
  with Cons.IH [OF \<open>p \<noteq> []\<close> nc] show ?case by simp
qed

lemma rewrite_loop_none:
  "list_all (\<lambda>q. \<not> Contains url q) ps \<Longrightarrow> rewrite_loop ps url pub = url"
  by (induction ps) auto

lemma rewrite_loop_first:
  "list_all (\<lambda>q. \<not> Contains url q) qs \<Longrightarrow> Contains url p \<Longrightarrow>
   rewrite_loop (qs @ p # rs) url pub = Replace url p (''wss://'' @ pub)"
  by (induction qs) auto

lemma no_ws_in_wss:
  assumes "Contains (''wss://'' @ t) (''ws://'' @ q)"
  shows "Contains t ''ws://''"
proof -
  from assms have "Contains t (''ws://'' @ q)" by auto
  then show ?thesis using Contains_append_left [of t "''ws://''" q] by simp
qed

lemma digit_not_colon: "(n::nat) < 10 \<Longrightarrow> char_of (48 + n) \<noteq> CHR '':''"
proof
  assume "n < 10" and "char_of (48 + n) = CHR '':''"
  then have "of_char (char_of (48 + n) :: char) = (of_char CHR '':'' :: nat)" by simp
  then have "(48 + n) mod 256 = 58" by (simp add: of_char_of)
  with \<open>n < 10\<close> show False by simp
qed

lemma digits_no_colon: "CHR '':'' \<notin> set (digits n)"
proof (induction n rule: digits.induct)
  case (1 n)
  show ?case
  proof (cases "n < 10")
    case True
    then show ?thesis using digit_not_colon [of n] by (subst digits.simps) auto
  next
    case False
    have "n mod 10 < 10" by simp
    then have "char_of (48 + n mod 10) \<noteq> CHR '':''" by (rule digit_not_colon)
    with False 1 show ?thesis by (subst digits.simps) auto
  qed
qed

lemma Itoa_no_colon: "CHR '':'' \<notin> set (Itoa i)"
  by (simp add: Itoa_def digits_no_colon)

lemma Split_not_Nil: "Split s c \<noteq> []"
  by (induction s) (auto split: list.splits)

lemma Split_no_sep: "c \<notin> set s \<Longrightarrow> Split s c = [s]"
  by (induction s) auto

lemma Split_at_sep: "c \<notin> set a \<Longrightarrow> Split (a @ c # b) c = a # Split b c"
  by (induction a) auto

lemma index1_Split_colon:
  assumes "c \<in> set s"
  shows "\<exists>port. index1 (Split s c) = Inr port"
proof -
  from assms obtain a b where s: "s = a @ c # b" and "c \<notin> set a"
    by (meson split_list_first)
  then have "Split s c = a # Split b c" by (simp add: Split_at_sep)
  moreover obtain y ys where "Split b c = y # ys" using Split_not_Nil [of b c] by (cases "Split b c") auto
  ultimately show ?thesis by (simp add: index1_def)
qed

lemma index1_Split_no_colon: "c \<notin> set s \<Longrightarrow> index1 (Split s c) = Inl (IndexOutOfRange 1 1)"
  by (simp add: Split_no_sep index1_def)

lemma port_of_client:
  "port_of (JoinHostPort ''localhost'' (Itoa port)) = Inr (Itoa port)"
proof -
  have "Split (''localhost'' @ CHR '':'' # Itoa port) CHR '':'' = ''localhost'' # Split (Itoa port) CHR '':''"
    by (rule Split_at_sep) simp
  then show ?thesis by (simp add: port_of_def JoinHostPort_def index1_def Split_no_sep Itoa_no_colon)
qed


lemma port_of_colon: "CHR '':'' \<in> set thp \<Longrightarrow> \<exists>port. port_of thp = Inr port"
  unfolding port_of_def by (rule index1_Split_colon)

lemma port_of_no_colon: "CHR '':'' \<notin> set thp \<Longrightarrow> port_of thp = Inl (IndexOutOfRange 1 1)"
  unfolding port_of_def by (rule index1_Split_no_colon)

lemma rewrite_unfold:
  "port_of thp = Inr port \<Longrightarrow>
   rewriteWebSocketURL url thp pub =
     Inr (rewrite_loop [''ws://'' @ thp, ''ws://127.0.0.1:'' @ port, ''ws://localhost:'' @ port] url pub)"
  by (simp add: rewriteWebSocketURL_def patterns_def)

lemma rewrite_loop_prefix:
  assumes "list_all (\<lambda>q. \<not> Contains (p @ rest) q) qs"
  shows "rewrite_loop (qs @ p # rs) (p @ rest) pub = ''wss://'' @ pub @ rest"
proof -
  have "Contains (p @ rest) p" by (rule Contains_prefix) simp
  with assms have "rewrite_loop (qs @ p # rs) (p @ rest) pub = Replace (p @ rest) p (''wss://'' @ pub)"
    by (rule rewrite_loop_first)
  also have "\<dots> = (''wss://'' @ pub) @ rest" by (rule Replace_prefix)
  finally show ?thesis by simp
qed

section \<open>The URL rewriter: recognised prefixes\<close>

text \<open>
  Claim C2, as the code has it. The function looks for each pattern anywhere in the URL
  (\<^verbatim>\<open>strings.Contains\<close>) and replaces the leftmost occurrence of the first
  pattern found. So a URL that begins with \<^verbatim>\<open>ws://<targetHostPort>\<close> becomes
  \<^verbatim>\<open>wss://<publicHostPort>\<close> followed by its remainder, unchanged; a URL that
  begins with \<^verbatim>\<open>ws://127.0.0.1:<port>\<close> does so when the first pattern occurs
  nowhere in it; and a URL that begins with \<^verbatim>\<open>ws://localhost:<port>\<close> does so
  when neither of the two patterns before it occurs in it. Here \<open>port\<close> is what
  \<^verbatim>\<open>strings.Split(targetHostPort, ":")[1]\<close> returns. (For a target on
  \<^verbatim>\<open>localhost\<close> the third pattern is the first one again, and the first part
  of the statement speaks of it.)
\<close>

theorem rewriteWebSocketURL_recognized_prefix:
  assumes "port_of thp = Inr port"
  shows "rewriteWebSocketURL (''ws://'' @ thp @ rest) thp pub
           = Inr (''wss://'' @ pub @ rest) \<and>
         (\<not> Contains (''ws://127.0.0.1:'' @ port @ rest) (''ws://'' @ thp) \<longrightarrow>
          rewriteWebSocketURL (''ws://127.0.0.1:'' @ port @ rest) thp pub
            = Inr (''wss://'' @ pub @ rest)) \<and>
         (\<not> Contains (''ws://localhost:'' @ port @ rest) (''ws://'' @ thp) \<and>
          \<not> Contains (''ws://localhost:'' @ port @ rest) (''ws://127.0.0.1:'' @ port) \<longrightarrow>
          rewriteWebSocketURL (''ws://localhost:'' @ port @ rest) thp pub
            = Inr (''wss://'' @ pub @ rest))"
proof -
  let ?p1 = "''ws://'' @ thp"
  let ?p2 = "''ws://127.0.0.1:'' @ port"
  let ?p3 = "''ws://localhost:'' @ port"
  have first: "rewrite_loop ([] @ ?p1 # [?p2, ?p3]) (?p1 @ rest) pub
                 = ''wss://'' @ pub @ rest"
    by (rule rewrite_loop_prefix) simp
  have second: "rewrite_loop ([?p1] @ ?p2 # [?p3]) (?p2 @ rest) pub
                 = ''wss://'' @ pub @ rest"
    if "\<not> Contains (?p2 @ rest) ?p1"
    by (rule rewrite_loop_prefix) (use that in simp)
  have third: "rewrite_loop ([?p1, ?p2] @ ?p3 # []) (?p3 @ rest) pub
                 = ''wss://'' @ pub @ rest"
    if "\<not> Contains (?p3 @ rest) ?p1" and "\<not> Contains (?p3 @ rest) ?p2"
    by (rule rewrite_loop_prefix) (use that in simp)
  from first have c1: "rewriteWebSocketURL (''ws://'' @ thp @ rest) thp pub
           = Inr (''wss://'' @ pub @ rest)"
    by (simp add: rewrite_unfold [OF assms])
  from second have c2: "\<not> Contains (''ws://127.0.0.1:'' @ port @ rest) (''ws://'' @ thp) \<longrightarrow>
          rewriteWebSocketURL (''ws://127.0.0.1:'' @ port @ rest) thp pub
            = Inr (''wss://'' @ pub @ rest)"
    by (simp add: rewrite_unfold [OF assms])
  from third have c3: "\<not> Contains (''ws://localhost:'' @ port @ rest) (''ws://'' @ thp) \<and>
          \<not> Contains (''ws://localhost:'' @ port @ rest) (''ws://127.0.0.1:'' @ port) \<longrightarrow>
          rewriteWebSocketURL (''ws://localhost:'' @ port @ rest) thp pub
            = Inr (''wss://'' @ pub @ rest)"
    by (simp add: rewrite_unfold [OF assms])
  from c1 c2 c3 show ?thesis by blast
qed

text \<open>
  The theorem at the target \<^verbatim>\<open>chrome:9222\<close>, where the three patterns differ.
\<close>

theorem rewriteWebSocketURL_recognized_prefix_witness:
  "port_of ''chrome:9222'' = Inr ''9222'' \<and>
   rewriteWebSocketURL ''ws://chrome:9222/devtools/page/7E'' ''chrome:9222'' ''9223-host.example''
     = Inr ''wss://9223-host.example/devtools/page/7E'' \<and>
   \<not> Contains ''ws://127.0.0.1:9222/devtools/page/7E'' ''ws://chrome:9222'' \<and>
   rewriteWebSocketURL ''ws://127.0.0.1:9222/devtools/page/7E'' ''chrome:9222'' ''9223-host.example''
     = Inr ''wss://9223-host.example/devtools/page/7E'' \<and>
   \<not> Contains ''ws://localhost:9222/devtools/page/7E'' ''ws://chrome:9222'' \<and>
   \<not> Contains ''ws://localhost:9222/devtools/page/7E'' ''ws://127.0.0.1:9222'' \<and>
   rewriteWebSocketURL ''ws://localhost:9222/devtools/page/7E'' ''chrome:9222'' ''9223-host.example''
     = Inr ''wss://9223-host.example/devtools/page/7E''"
proof -
  have p: "port_of ''chrome:9222'' = Inr ''9222''"
    by (simp add: port_of_def index1_def)
  have n1: "\<not> Contains ''ws://127.0.0.1:9222/devtools/page/7E'' ''ws://chrome:9222''" by simp
  have n2: "\<not> Contains ''ws://localhost:9222/devtools/page/7E'' ''ws://chrome:9222''" by simp
  have n3: "\<not> Contains ''ws://localhost:9222/devtools/page/7E'' ''ws://127.0.0.1:9222''" by simp
  from rewriteWebSocketURL_recognized_prefix [OF p, of "''/devtools/page/7E''" "''9223-host.example''"]
    p n1 n2 n3
  show ?thesis by simp
qed

text \<open>
  Claim C2 as it is written fails for the proxy's own target \<^verbatim>\<open>localhost:9222\<close>:
  this URL begins with the recognised prefix \<^verbatim>\<open>ws://127.0.0.1:9222\<close>, but the
  first pattern \<^verbatim>\<open>ws://localhost:9222\<close> occurs later in it, so that later
  occurrence is replaced and the prefix stays.
\<close>

theorem rewriteWebSocketURL_recognized_prefix_counterexample:
  "port_of ''localhost:9222'' = Inr ''9222'' \<and>
   rewriteWebSocketURL (''ws://127.0.0.1:'' @ ''9222'' @ ''/page?next=ws://localhost:9222'')
       ''localhost:9222'' ''9223-host.example''
     = Inr ''ws://127.0.0.1:9222/page?next=wss://9223-host.example'' \<and>
   rewriteWebSocketURL (''ws://127.0.0.1:'' @ ''9222'' @ ''/page?next=ws://localhost:9222'')
       ''localhost:9222'' ''9223-host.example''
     \<noteq> Inr (''wss://'' @ ''9223-host.example'' @ ''/page?next=ws://localhost:9222'')"
  by (simp add: rewriteWebSocketURL_def patterns_def port_of_def index1_def)

section \<open>The URL rewriter: unrecognised URLs and a second application\<close>

lemma rewrite_unrecognized:
  assumes "port_of thp = Inr port"
    and "\<not> Contains url (''ws://'' @ thp)"
    and "\<not> Contains url (''ws://127.0.0.1:'' @ port)"
    and "\<not> Contains url (''ws://localhost:'' @ port)"
  shows "rewriteWebSocketURL url thp pub = Inr url"
  using assms by (simp add: rewrite_unfold)

lemma rewrite_external_form:
  assumes "port_of thp = Inr port" and "\<not> Contains (pub @ rest) ''ws://''"
  shows "rewriteWebSocketURL (''wss://'' @ pub @ rest) thp pub = Inr (''wss://'' @ pub @ rest)"
proof (rule rewrite_unrecognized [OF assms(1)])
  show "\<not> Contains (''wss://'' @ pub @ rest) (''ws://'' @ thp)"
    using assms(2) no_ws_in_wss by blast
  show "\<not> Contains (''wss://'' @ pub @ rest) (''ws://127.0.0.1:'' @ port)"
    using assms(2) no_ws_in_wss [of "pub @ rest" "''127.0.0.1:'' @ port"] by auto
  show "\<not> Contains (''wss://'' @ pub @ rest) (''ws://localhost:'' @ port)"
    using assms(2) no_ws_in_wss [of "pub @ rest" "''localhost:'' @ port"] by auto
qed

text \<open>
  Claim C3, as the code has it. A URL in which none of the three patterns occurs is
  returned as it is. A rewritten URL \<^verbatim>\<open>wss://<publicHostPort><rest>\<close> is
  returned as it is by a second application when \<^verbatim>\<open>ws://\<close> does not occur in
  \<^verbatim>\<open><publicHostPort><rest>\<close>: then no pattern occurs in it, since every pattern
  begins with \<^verbatim>\<open>ws://\<close> and the scheme \<^verbatim>\<open>wss://\<close> holds none.
\<close>

theorem rewriteWebSocketURL_unrecognized_unchanged:
  assumes "port_of thp = Inr port"
  shows "(\<not> Contains url (''ws://'' @ thp) \<and>
          \<not> Contains url (''ws://127.0.0.1:'' @ port) \<and>
          \<not> Contains url (''ws://localhost:'' @ port) \<longrightarrow>
          rewriteWebSocketURL url thp pub = Inr url) \<and>
         (\<not> Contains (pub @ rest) ''ws://'' \<longrightarrow>
          rewriteWebSocketURL (''wss://'' @ pub @ rest) thp pub = Inr (''wss://'' @ pub @ rest))"
  using rewrite_unrecognized [OF assms] rewrite_external_form [OF assms] by blast

text \<open>The theorem at the proxy's target, on a URL of another host and on a rewritten URL.\<close>

theorem rewriteWebSocketURL_unrecognized_unchanged_witness:
  "port_of ''localhost:9222'' = Inr ''9222'' \<and>
   \<not> Contains ''ws://10.0.0.7:9222/devtools/page/A'' ''ws://localhost:9222'' \<and>
   \<not> Contains ''ws://10.0.0.7:9222/devtools/page/A'' ''ws://127.0.0.1:9222'' \<and>
   rewriteWebSocketURL ''ws://10.0.0.7:9222/devtools/page/A'' ''localhost:9222'' ''9223-host.example''
     = Inr ''ws://10.0.0.7:9222/devtools/page/A'' \<and>
   \<not> Contains (''9223-host.example'' @ ''/devtools/page/A'') ''ws://'' \<and>
   rewriteWebSocketURL ''wss://9223-host.example/devtools/page/A'' ''localhost:9222''
       ''9223-host.example''
     = Inr ''wss://9223-host.example/devtools/page/A''"
proof -
  have p: "port_of ''localhost:9222'' = Inr ''9222''"
    by (simp add: port_of_def index1_def)
  have n1: "\<not> Contains ''ws://10.0.0.7:9222/devtools/page/A'' ''ws://localhost:9222''" by simp
  have n2: "\<not> Contains ''ws://10.0.0.7:9222/devtools/page/A'' ''ws://127.0.0.1:9222''" by simp
  have n3: "\<not> Contains (''9223-host.example'' @ ''/devtools/page/A'') ''ws://''" by simp
  from rewriteWebSocketURL_unrecognized_unchanged [OF p,
      of "''ws://10.0.0.7:9222/devtools/page/A''" "''9223-host.example''" "''/devtools/page/A''"]
    p n1 n2 n3
  show ?thesis by simp
qed

text \<open>
  Claim C3 as it is written fails: this URL begins with the first recognised prefix and
  holds the internal address a second time. The first application replaces the prefix
  only, so its output still holds a pattern, and the second application changes it.
\<close>

theorem rewriteWebSocketURL_idempotence_counterexample:
  "rewriteWebSocketURL ''ws://localhost:9222/page/A?next=ws://localhost:9222'' ''localhost:9222''
       ''9223-host.example''
     = Inr ''wss://9223-host.example/page/A?next=ws://localhost:9222'' \<and>
   rewriteWebSocketURL ''wss://9223-host.example/page/A?next=ws://localhost:9222'' ''localhost:9222''
       ''9223-host.example''
     = Inr ''wss://9223-host.example/page/A?next=wss://9223-host.example'' \<and>
   rewriteWebSocketURL ''wss://9223-host.example/page/A?next=ws://localhost:9222'' ''localhost:9222''
       ''9223-host.example''
     \<noteq> Inr ''wss://9223-host.example/page/A?next=ws://localhost:9222''"
  by (simp add: rewriteWebSocketURL_def patterns_def port_of_def index1_def)

section \<open>Maps kept in the order of their keys\<close>

lemma map_of_assign: "map_of (assign k v m) = (map_of m)(k \<mapsto> v)"
  by (induction m) (auto simp: fun_eq_iff)

lemma keys_assign: "set (map fst (assign k v m)) = insert k (set (map fst m))"
proof -
  have "fst ` set (assign k v m) = dom (map_of (assign k v m))"
    by (simp add: dom_map_of_conv_image_fst)
  also have "\<dots> = insert k (dom (map_of m))" by (simp add: map_of_assign)
  also have "\<dots> = insert k (fst ` set m)" by (simp add: dom_map_of_conv_image_fst)
  finally show ?thesis by simp
qed

lemma sorted_assign: "sorted (map fst m) \<Longrightarrow> sorted (map fst (assign k v m))"
proof (induction m)
  case Nil
  then show ?case by simp
next
  case (Cons a m)
  obtain k' v' where a: "a = (k', v')" by (cases a)
  from Cons.prems a have rest: "sorted (map fst m)" and le: "\<forall>x\<in>set (map fst m). k' \<le> x"
    by simp_all
  consider "k = k'" | "k < k'" | "k' < k" by (metis linorder_less_linear)
  then show ?case
  proof cases
    case 1
    with a Cons.prems show ?thesis by simp
  next
    case 2
    with a Cons.prems show ?thesis by auto
  next
    case 3
    then have "\<forall>x\<in>set (map fst (assign k v m)). k' \<le> x"
      using le by (simp only: keys_assign) auto
    with 3 a Cons.IH [OF rest] show ?thesis by auto
  qed
qed

lemma same_but_refl: "same_but ks m m"
  by (simp add: same_but_def list_all2_refl)

lemma same_but_trans:
  assumes "same_but ks m m'" and "same_but ks m' m''"
  shows "same_but ks m m''"
  using assms unfolding same_but_def
  by (rule list_all2_trans [rotated 1]) auto

lemma same_but_mono: "same_but ks m m' \<Longrightarrow> set ks \<subseteq> set ks' \<Longrightarrow> same_but ks' m m'"
  unfolding same_but_def by (erule list_all2_mono) auto

lemma same_but_keys: "same_but ks m m' \<Longrightarrow> map fst m' = map fst m"
  unfolding same_but_def by (induction m m' rule: list_all2_induct) auto

lemma same_but_lookup: "same_but ks m m' \<Longrightarrow> k \<notin> set ks \<Longrightarrow> map_of m' k = map_of m k"
  unfolding same_but_def
proof (induction m m' rule: list_all2_induct)
  case Nil
  then show ?case by simp
next
  case (Cons x xs y ys)
  then show ?case by (cases x; cases y) auto
qed

lemma same_but_assign:
  assumes "k \<in> set ks" and "sorted (map fst m)" and "map_of m k = Some v0"
  shows "same_but ks m (assign k v m)"
  using assms(2,3)
proof (induction m)
  case Nil
  then show ?case by simp
next
  case (Cons a m)
  obtain k' v' where a: "a = (k', v')" by (cases a)
  show ?case
  proof (cases "k = k'")
    case True
    with a assms(1) show ?thesis
      using same_but_refl [of ks m] by (simp add: same_but_def)
  next
    case False
    with a Cons.prems have in_rest: "map_of m k = Some v0" by simp
    then have "k \<in> set (map fst m)" by (metis map_of_eq_None_iff option.distinct(1) set_map)
    with Cons.prems a have "k' \<le> k" by auto
    with False have nless: "\<not> k < k'" by auto
    from Cons.prems a have "sorted (map fst m)" by simp
    from Cons.IH [OF this in_rest] False nless a show ?thesis
      by (simp add: same_but_def)
  qed
qed

lemma build_map_sorted:
  "sorted (map fst acc) \<Longrightarrow> build_map ms acc = Inr m \<Longrightarrow> sorted (map fst m)"
  by (induction ms arbitrary: acc) (auto split: sum.splits intro: sorted_assign)

lemma Unmarshal_map_sorted: "Unmarshal_map doc = Inr (Some m) \<Longrightarrow> sorted (map fst m)"
  by (cases doc) (auto simp: Unmarshal_object_def split: sum.splits intro: build_map_sorted [of "[]"])

lemma Unmarshal_elems_sorted:
  "Unmarshal_elems xs = Inr ts \<Longrightarrow> Some m \<in> set ts \<Longrightarrow> sorted (map fst m)"
  by (induction xs arbitrary: ts) (auto split: sum.splits dest: Unmarshal_map_sorted)

section \<open>Both rewrites replace one occurrence\<close>

lemma patterns_nonempty: "patterns thp = Inr ps \<Longrightarrow> q \<in> set ps \<Longrightarrow> q \<noteq> []"
  by (auto simp: patterns_def split: sum.splits)

lemma rewrite_loop_first_occurrence:
  assumes "list_all (\<lambda>q. \<not> Contains (pre @ p @ post) q) qs"
    and "p \<noteq> []" and "\<not> Contains (pre @ butlast p) p"
  shows "rewrite_loop (qs @ p # rs) (pre @ p @ post) pub = pre @ ''wss://'' @ pub @ post"
proof -
  have "Contains (pre @ p @ post) p" unfolding Contains_iff by blast
  with assms(1)
  have "rewrite_loop (qs @ p # rs) (pre @ p @ post) pub = Replace (pre @ p @ post) p (''wss://'' @ pub)"
    by (rule rewrite_loop_first)
  also have "\<dots> = pre @ (''wss://'' @ pub) @ post"
    using assms(2,3) by (rule Replace_first)
  finally show ?thesis by simp
qed

lemma rewrite_dev_field_string:
  assumes "map_of target ''devtoolsFrontendUrl'' = Some (GoString devURLStr)"
  shows "map_of (rewrite_dev_field target thp pub) ''devtoolsFrontendUrl''
           = Some (GoString (Replace devURLStr (''ws='' @ thp) (''ws='' @ pub)))"
  using assms by (simp add: rewrite_dev_field_def map_of_assign)

text \<open>
  Claim C9. Let \<open>p\<close> be one of the three patterns, with the patterns \<open>qs\<close> before it
  in the list occurring nowhere in the URL, and let the URL be \<open>pre @ p @ post\<close> with
  no occurrence of \<open>p\<close> that starts inside \<open>pre\<close> (an occurrence starting there would
  lie in \<open>pre @ butlast p\<close>). Then \<^verbatim>\<open>rewriteWebSocketURL\<close> returns
  \<open>pre\<close>, the external form, and \<open>post\<close> as it was, whatever \<open>post\<close> holds: later
  occurrences of the internal address stay. Likewise the list handler's rewrite of
  \<^verbatim>\<open>devtoolsFrontendUrl\<close> replaces the first \<^verbatim>\<open>ws=<targetHostPort>\<close>
  and leaves everything after it as it was.
\<close>

theorem rewrites_replace_first_occurrence_only:
  assumes "patterns thp = Inr (qs @ p # rs)"
  shows "(list_all (\<lambda>q. \<not> Contains (pre @ p @ post) q) qs \<and> \<not> Contains (pre @ butlast p) p \<longrightarrow>
          rewriteWebSocketURL (pre @ p @ post) thp pub = Inr (pre @ ''wss://'' @ pub @ post)) \<and>
         (map_of target ''devtoolsFrontendUrl'' = Some (GoString (pre' @ ''ws='' @ thp @ post')) \<and>
          \<not> Contains (pre' @ butlast (''ws='' @ thp)) (''ws='' @ thp) \<longrightarrow>
          map_of (rewrite_dev_field target thp pub) ''devtoolsFrontendUrl''
            = Some (GoString (pre' @ ''ws='' @ pub @ post')))"
proof (intro conjI impI)
  assume h: "list_all (\<lambda>q. \<not> Contains (pre @ p @ post) q) qs \<and> \<not> Contains (pre @ butlast p) p"
  have "p \<noteq> []" using patterns_nonempty [OF assms, of p] by simp
  with h have "rewrite_loop (qs @ p # rs) (pre @ p @ post) pub = pre @ ''wss://'' @ pub @ post"
    by (intro rewrite_loop_first_occurrence) simp_all
  with assms show "rewriteWebSocketURL (pre @ p @ post) thp pub = Inr (pre @ ''wss://'' @ pub @ post)"
    by (simp add: rewriteWebSocketURL_def)
next
  assume h: "map_of target ''devtoolsFrontendUrl'' = Some (GoString (pre' @ ''ws='' @ thp @ post')) \<and>
          \<not> Contains (pre' @ butlast (''ws='' @ thp)) (''ws='' @ thp)"
  have ne: "''ws='' @ thp \<noteq> []" by simp
  from h have nc: "\<not> Contains (pre' @ butlast (''ws='' @ thp)) (''ws='' @ thp)" by blast
  have "Replace (pre' @ (''ws='' @ thp) @ post') (''ws='' @ thp) (''ws='' @ pub)
          = pre' @ (''ws='' @ pub) @ post'"
    using ne nc by (rule Replace_first)
  then have "Replace (pre' @ ''ws='' @ thp @ post') (''ws='' @ thp) (''ws='' @ pub)
          = pre' @ ''ws='' @ pub @ post'" by simp
  moreover from h have "map_of (rewrite_dev_field target thp pub) ''devtoolsFrontendUrl''
           = Some (GoString (Replace (pre' @ ''ws='' @ thp @ post') (''ws='' @ thp) (''ws='' @ pub)))"
    by (intro rewrite_dev_field_string) simp
  ultimately show "map_of (rewrite_dev_field target thp pub) ''devtoolsFrontendUrl''
            = Some (GoString (pre' @ ''ws='' @ pub @ post'))" by simp
qed

text \<open>
  The theorem at the proxy's target, on URLs that hold the internal address twice: the
  second occurrence is in the result.
\<close>

theorem rewrites_replace_first_occurrence_only_witness:
  "patterns ''localhost:9222''
     = Inr ([] @ ''ws://localhost:9222'' # [''ws://127.0.0.1:9222'', ''ws://localhost:9222'']) \<and>
   \<not> Contains (''view='' @ butlast ''ws://localhost:9222'') ''ws://localhost:9222'' \<and>
   rewriteWebSocketURL ''view=ws://localhost:9222/page/A?next=ws://localhost:9222'' ''localhost:9222''
       ''9223-host.example''
     = Inr ''view=wss://9223-host.example/page/A?next=ws://localhost:9222'' \<and>
   \<not> Contains (''/inspector.html?'' @ butlast ''ws=localhost:9222'') ''ws=localhost:9222'' \<and>
   map_of (rewrite_dev_field
             [(''devtoolsFrontendUrl'',
               GoString ''/inspector.html?ws=localhost:9222/page/A&alt=ws=localhost:9222'')]
             ''localhost:9222'' ''9223-host.example'') ''devtoolsFrontendUrl''
     = Some (GoString ''/inspector.html?ws=9223-host.example/page/A&alt=ws=localhost:9222'')"
proof -
  have p: "patterns ''localhost:9222''
     = Inr ([] @ ''ws://localhost:9222'' # [''ws://127.0.0.1:9222'', ''ws://localhost:9222''])"
    by (simp add: patterns_def port_of_def index1_def)
  have n1: "\<not> Contains (''view='' @ butlast ''ws://localhost:9222'') ''ws://localhost:9222''"
    by simp
  have n2: "\<not> Contains (''/inspector.html?'' @ butlast ''ws=localhost:9222'') ''ws=localhost:9222''"
    by simp
  from rewrites_replace_first_occurrence_only [OF p,
      of "''view=''" "''/page/A?next=ws://localhost:9222''" "''9223-host.example''"
         "[(''devtoolsFrontendUrl'',
               GoString ''/inspector.html?ws=localhost:9222/page/A&alt=ws=localhost:9222'')]"
         "''/inspector.html?''" "''/page/A&alt=ws=localhost:9222''"]
    p n1 n2
  show ?thesis by simp
qed

section \<open>What the discovery handlers leave alone\<close>

lemma rewrite_dev_field_same:
  assumes "sorted (map fst m)"
  shows "same_but [''devtoolsFrontendUrl''] m (rewrite_dev_field m thp pub)"
proof (cases "map_of m ''devtoolsFrontendUrl''")
  case None
  then show ?thesis by (simp add: rewrite_dev_field_def same_but_refl)
next
  case (Some v)
  have upd: "same_but [''devtoolsFrontendUrl''] m (assign ''devtoolsFrontendUrl'' w m)" for w
    by (rule same_but_assign [OF _ assms Some]) simp
  from Some show ?thesis
    by (cases v) (simp_all add: rewrite_dev_field_def same_but_refl upd)
qed

lemma rewrite_dev_field_sorted:
  "sorted (map fst m) \<Longrightarrow> sorted (map fst (rewrite_dev_field m thp pub))"
  using same_but_keys [OF rewrite_dev_field_same, of m thp pub] by simp

lemma rewrite_ws_field_same:
  assumes "sorted (map fst m)" and "rewrite_ws_field m thp pub = Inr m'"
  shows "same_but [''webSocketDebuggerUrl''] m m'"
proof (cases "map_of m ''webSocketDebuggerUrl''")
  case None
  with assms(2) show ?thesis by (simp add: rewrite_ws_field_def same_but_refl)
next
  case (Some v)
  have upd: "same_but [''webSocketDebuggerUrl''] m (assign ''webSocketDebuggerUrl'' w m)" for w
    by (rule same_but_assign [OF _ assms(1) Some]) simp
  show ?thesis
  proof (cases v)
    case (GoString wsURLStr)
    with Some assms(2) obtain newWSURL
      where "m' = assign ''webSocketDebuggerUrl'' (GoString newWSURL) m"
      by (auto simp: rewrite_ws_field_def split: sum.splits)
    with upd show ?thesis by simp
  qed (use Some assms(2) in \<open>simp_all add: rewrite_ws_field_def same_but_refl\<close>)
qed

lemma rewrite_ws_field_total:
  assumes "port_of thp = Inr port"
  shows "\<exists>m'. rewrite_ws_field m thp pub = Inr m'"
proof (cases "map_of m ''webSocketDebuggerUrl''")
  case None
  then show ?thesis by (simp add: rewrite_ws_field_def)
next
  case (Some v)
  then show ?thesis
    by (cases v) (simp_all add: rewrite_ws_field_def rewrite_unfold [OF assms])
qed

lemma rewrite_version_same:
  assumes "Unmarshal_map doc = Inr versionData"
    and "rewrite_version versionData thp pub = Inr versionData'"
  shows "rel_option (same_but [''webSocketDebuggerUrl'']) versionData versionData'"
proof (cases versionData)
  case None
  with assms(2) show ?thesis by (simp add: rewrite_version_def)
next
  case (Some m)
  with assms(1) have srt: "sorted (map fst m)" by (simp add: Unmarshal_map_sorted)
  from Some assms(2) obtain m' where v': "versionData' = Some m'"
    and ws: "rewrite_ws_field m thp pub = Inr m'"
    by (auto simp: rewrite_version_def split: sum.splits)
  from srt ws have "same_but [''webSocketDebuggerUrl''] m m'" by (rule rewrite_ws_field_same)
  with Some v' show ?thesis by simp
qed

lemma rewrite_version_total:
  assumes "port_of thp = Inr port"
  shows "\<exists>versionData'. rewrite_version versionData thp pub = Inr versionData'"
proof (cases versionData)
  case None
  then show ?thesis by (simp add: rewrite_version_def)
next
  case (Some m)
  from rewrite_ws_field_total [OF assms, of m pub]
  obtain m' where "rewrite_ws_field m thp pub = Inr m'" by blast
  with Some show ?thesis by (simp add: rewrite_version_def)
qed

lemma rewrite_target_same:
  assumes "\<And>m. t = Some m \<Longrightarrow> sorted (map fst m)"
    and "rewrite_target t thp pub = Inr t'"
  shows "rel_option (same_but [''webSocketDebuggerUrl'', ''devtoolsFrontendUrl'']) t t'"
proof (cases t)
  case None
  with assms(2) show ?thesis by (simp add: rewrite_target_def)
next
  case (Some m)
  then have srt: "sorted (map fst m)" by (rule assms(1))
  from Some assms(2) obtain m' where t': "t' = Some m'"
    and ws: "rewrite_ws_field (rewrite_dev_field m thp pub) thp pub = Inr m'"
    by (auto simp: rewrite_target_def split: sum.splits)
  have "same_but [''webSocketDebuggerUrl'', ''devtoolsFrontendUrl''] m (rewrite_dev_field m thp pub)"
    by (rule same_but_mono [OF rewrite_dev_field_same [OF srt]]) simp
  moreover have "same_but [''webSocketDebuggerUrl'', ''devtoolsFrontendUrl'']
                   (rewrite_dev_field m thp pub) m'"
    by (rule same_but_mono [OF rewrite_ws_field_same [OF rewrite_dev_field_sorted [OF srt] ws]]) simp
  ultimately have "same_but [''webSocketDebuggerUrl'', ''devtoolsFrontendUrl''] m m'"
    by (rule same_but_trans)
  with Some t' show ?thesis by simp
qed

lemma rewrite_target_total:
  assumes "port_of thp = Inr port"
  shows "\<exists>t'. rewrite_target t thp pub = Inr t'"
proof (cases t)
  case None
  then show ?thesis by (simp add: rewrite_target_def)
next
  case (Some m)
  from rewrite_ws_field_total [OF assms, of "rewrite_dev_field m thp pub" pub]
  obtain m' where "rewrite_ws_field (rewrite_dev_field m thp pub) thp pub = Inr m'" by blast
  with Some show ?thesis by (simp add: rewrite_target_def)
qed

lemma rewrite_targets_each:
  "rewrite_targets ts thp pub = Inr ts' \<Longrightarrow>
   list_all2 (\<lambda>t t'. rewrite_target t thp pub = Inr t') ts ts'"
  by (induction ts arbitrary: ts') (auto split: sum.splits)

lemma rewrite_targets_total:
  assumes "port_of thp = Inr port"
  shows "\<exists>ts'. rewrite_targets ts thp pub = Inr ts'"
proof (induction ts)
  case Nil
  then show ?case by simp
next
  case (Cons t ts)
  from rewrite_target_total [OF assms, of t pub]
  obtain t' where "rewrite_target t thp pub = Inr t'" by blast
  with Cons show ?case by auto
qed

lemma rewrite_targets_same:
  assumes "Unmarshal_elems xs = Inr ts" and "rewrite_targets ts thp pub = Inr ts'"
  shows "list_all2 (rel_option (same_but [''webSocketDebuggerUrl'', ''devtoolsFrontendUrl''])) ts ts'"
proof -
  from assms(2) have each: "list_all2 (\<lambda>t t'. rewrite_target t thp pub = Inr t') ts ts'"
    by (rule rewrite_targets_each)
  have "rel_option (same_but [''webSocketDebuggerUrl'', ''devtoolsFrontendUrl'']) t t'"
    if "t \<in> set ts" and "rewrite_target t thp pub = Inr t'" for t t'
  proof (rule rewrite_target_same [OF _ that(2)])
    fix m assume "t = Some m"
    with that(1) show "sorted (map fst m)" using Unmarshal_elems_sorted [OF assms(1)] by blast
  qed
  with each show ?thesis by (rule list.rel_mono_strong)
qed

section \<open>The clients the program builds\<close>

text \<open>
  \<^verbatim>\<open>main\<close> builds its one client with \<^verbatim>\<open>NewChromeDevToolsClient\<close>,
  and no handler assigns to \<^verbatim>\<open>targetHostPort\<close>. So the target of the running
  proxy is always \<^verbatim>\<open>localhost:<port>\<close>, the split at the colon finds the
  port, and \<^verbatim>\<open>rewriteWebSocketURL\<close> does not panic.
\<close>

lemma NewChromeDevToolsClient_port:
  "port_of (targetHostPort (NewChromeDevToolsClient port timeoutSec now)) = Inr (Itoa port)"
  by (simp add: NewChromeDevToolsClient_def Let_def port_of_client)

lemma targetHostPort_handlers:
  "targetHostPort (fst (handleHealth c r e)) = targetHostPort c"
  "targetHostPort (fst (handleMetrics c r e)) = targetHostPort c"
  "targetHostPort (fst (handleJsonVersion c r e)) = targetHostPort c"
  "targetHostPort (fst (handleJsonList c r e)) = targetHostPort c"
  "targetHostPort (fst (proxy_ServeHTTP c r e)) = targetHostPort c"
  by (simp_all add: handleHealth_def handleMetrics_def handleJsonVersion_def handleJsonList_def
      proxy_ServeHTTP_def count_error_def
      split: upstream_reply.splits sum.splits option.splits forward_result.splits)

lemma ServeHTTP_targetHostPort: "targetHostPort (fst (ServeHTTP c r e)) = targetHostPort c"
  by (simp add: ServeHTTP_def Let_def targetHostPort_handlers)

text \<open>The client for the default port 9222, and two header values, evaluated.\<close>

lemma digit_chars: "char_of (57::nat) = CHR ''9'' \<and> char_of (50::nat) = CHR ''2''"
  by code_simp

lemma Itoa_9222: "Itoa 9222 = ''9222''"
  by (simp add: Itoa_def digits.simps digit_chars)

lemma client_9222:
  "NewChromeDevToolsClient 9222 30 0 =
     \<lparr>targetHostPort = ''localhost:9222'', clientTimeout = 30, proxyTarget = ''localhost:9222'',
      requestCount = 0, errorCount = 0, startTime = 0\<rparr>"
  by (simp add: NewChromeDevToolsClient_def JoinHostPort_def Itoa_9222 Let_def)

lemma lower_examples:
  "ToLower ''WebSocket'' = ''websocket'' \<and>
   ToLower ''keep-alive, Upgrade'' = ''keep-alive, upgrade''"
  by code_simp

section \<open>Two numbers that are no float64 values\<close>

lemma ParseFloat_1e400: "ParseFloat (10 ^ 400) = None"
  by (simp add: ParseFloat_def ParseFloat_abs_def)

lemma round_even_int: "round_even (of_int n) = n"
  by (simp add: round_even_def)

lemma ParseFloat_abs_int:
  assumes "0 < n" and "53 \<le> bitlen n" and "(of_int n :: rat) < 2 ^ 1024 - 2 ^ 970"
  shows "ParseFloat_abs (of_int n)
           = Some (of_int (round_even (of_int n / 2 ^ nat (bitlen n - 53)) * 2 ^ nat (bitlen n - 53)))"
proof -
  let ?t = "nat (bitlen n - 53)"
  have fl: "\<lfloor>(of_int n :: rat) * 2 ^ 1074\<rfloor> = n * 2 ^ 1074"
  proof -
    have "(of_int n :: rat) * 2 ^ 1074 = of_int (n * 2 ^ 1074)" by simp
    then show ?thesis by (simp only: floor_of_int)
  qed
  have bl: "bitlen (n * 2 ^ 1074) = bitlen n + 1074"
    using bitlen_pow2 [OF assms(1), of 1074] by simp
  have s: "nat (bitlen (n * 2 ^ 1074) - 53) = ?t + 1074"
    unfolding bl using assms(2) by arith
  have q: "(of_int n :: rat) * 2 ^ 1074 / 2 ^ (?t + 1074) = of_int n / 2 ^ ?t"
    by (simp add: power_add)
  have r: "(of_int (k * 2 ^ (?t + 1074)) :: rat) / 2 ^ 1074 = of_int (k * 2 ^ ?t)" for k :: int
    by (simp add: power_add)
  have nle: "\<not> 2 ^ 1024 - 2 ^ 970 \<le> (of_int n :: rat)"
    using assms(3) by (simp only: not_le)
  show ?thesis
    unfolding ParseFloat_abs_def Let_def fl s q r if_not_P [OF nle] by (rule refl)
qed

lemma bitlen_big: "bitlen 12345678901234567890 = 64"
proof -
  from bitlen_twopow_add_eq [of 3122306864379792082 63] show ?thesis by simp
qed

lemma floor_big: "\<lfloor>(12345678901234567890 :: rat) / 2 ^ 11\<rfloor> = 6028163525993441"
  by (rule floor_unique) simp_all

lemma round_even_big: "round_even (12345678901234567890 / 2 ^ 11) = 6028163525993441"
  unfolding round_even_def Let_def floor_big by simp

lemma ParseFloat_big: "ParseFloat 12345678901234567890 = Some 12345678901234567168"
proof -
  have "ParseFloat_abs (of_int 12345678901234567890)
           = Some (of_int (round_even (of_int 12345678901234567890 / 2 ^ nat (bitlen 12345678901234567890 - 53))
                 * 2 ^ nat (bitlen 12345678901234567890 - 53)))"
    by (rule ParseFloat_abs_int) (simp_all add: bitlen_big)
  also have "nat (bitlen 12345678901234567890 - 53) = 11" by (simp add: bitlen_big)
  also have "(of_int 12345678901234567890 :: rat) = 12345678901234567890" by simp
  finally have "ParseFloat_abs 12345678901234567890
           = Some (of_int (round_even (12345678901234567890 / 2 ^ 11) * 2 ^ 11))" .
  then show ?thesis
    unfolding round_even_big by (simp add: ParseFloat_def)
qed

section \<open>The discovery handlers: failures\<close>

lemma handleJsonVersion_GetFailed:
  "upstream e = GetFailed err \<Longrightarrow>
   handleJsonVersion c r e
     = (c\<lparr>errorCount := errorCount c + 1\<rparr>,
        Response \<lparr>status = 502,
                  body = Literal (''Failed to get JSON version: '' @ err @ [CHR 0x0A])\<rparr>)"
  by (simp add: handleJsonVersion_def count_error_def http_Error_def)

lemma handleJsonList_GetFailed:
  "upstream e = GetFailed err \<Longrightarrow>
   handleJsonList c r e
     = (c\<lparr>errorCount := errorCount c + 1\<rparr>,
        Response \<lparr>status = 502,
                  body = Literal (''Failed to get JSON list: '' @ err @ [CHR 0x0A])\<rparr>)"
  by (simp add: handleJsonList_def count_error_def http_Error_def)

lemma handleJsonVersion_decode_failed:
  assumes "upstream e = NotJson err \<or> upstream e = JsonDoc v \<and> Unmarshal_map v = Inl err"
  shows "handleJsonVersion c r e
     = (c\<lparr>errorCount := errorCount c + 1\<rparr>,
        Response \<lparr>status = 500,
                  body = Literal (''Failed to unmarshal response body: '' @ err @ [CHR 0x0A])\<rparr>)"
  using assms
proof
  assume "upstream e = NotJson err"
  then show ?thesis by (simp add: handleJsonVersion_def count_error_def http_Error_def)
next
  assume "upstream e = JsonDoc v \<and> Unmarshal_map v = Inl err"
  then show ?thesis by (simp add: handleJsonVersion_def count_error_def http_Error_def)
qed

lemma handleJsonList_decode_failed:
  assumes "upstream e = NotJson err \<or> upstream e = JsonDoc v \<and> Unmarshal_slice v = Inl err"
  shows "handleJsonList c r e
     = (c\<lparr>errorCount := errorCount c + 1\<rparr>,
        Response \<lparr>status = 500,
                  body = Literal (''Failed to unmarshal response body: '' @ err @ [CHR 0x0A])\<rparr>)"
  using assms
proof
  assume "upstream e = NotJson err"
  then show ?thesis by (simp add: handleJsonList_def count_error_def http_Error_def)
next
  assume "upstream e = JsonDoc v \<and> Unmarshal_slice v = Inl err"
  then show ?thesis by (simp add: handleJsonList_def count_error_def http_Error_def)
qed

text \<open>
  Claim C5. When \<^verbatim>\<open>c.client.Get\<close> fails, both discovery handlers answer 502
  and add one to the error counter. When the body is not JSON, or is JSON of another shape
  than the handler decodes into, the handler answers 500 and adds one to the error
  counter. In each case the body is the error text that \<^verbatim>\<open>http.Error\<close> writes
  and no document.
\<close>

theorem discovery_handlers_failures:
  "(upstream e = GetFailed err \<longrightarrow>
      handleJsonVersion c r e
        = (c\<lparr>errorCount := errorCount c + 1\<rparr>,
           Response \<lparr>status = 502,
                     body = Literal (''Failed to get JSON version: '' @ err @ [CHR 0x0A])\<rparr>) \<and>
      handleJsonList c r e
        = (c\<lparr>errorCount := errorCount c + 1\<rparr>,
           Response \<lparr>status = 502,
                     body = Literal (''Failed to get JSON list: '' @ err @ [CHR 0x0A])\<rparr>)) \<and>
   (upstream e = NotJson err \<or> upstream e = JsonDoc v \<and> Unmarshal_map v = Inl err \<longrightarrow>
      handleJsonVersion c r e
        = (c\<lparr>errorCount := errorCount c + 1\<rparr>,
           Response \<lparr>status = 500,
                     body = Literal (''Failed to unmarshal response body: '' @ err @ [CHR 0x0A])\<rparr>)) \<and>
   (upstream e = NotJson err \<or> upstream e = JsonDoc v \<and> Unmarshal_slice v = Inl err \<longrightarrow>
      handleJsonList c r e
        = (c\<lparr>errorCount := errorCount c + 1\<rparr>,
           Response \<lparr>status = 500,
                     body = Literal (''Failed to unmarshal response body: '' @ err @ [CHR 0x0A])\<rparr>))"
  using handleJsonVersion_GetFailed [of e err c r] handleJsonList_GetFailed [of e err c r]
    handleJsonVersion_decode_failed [of e err v c r] handleJsonList_decode_failed [of e err v c r]
  by blast

text \<open>
  The theorem at a fresh proxy: an upstream that refuses the connection, an array where the
  version handler decodes an object, and a body that is not JSON.
\<close>

theorem discovery_handlers_failures_witness:
  "handleJsonVersion (NewChromeDevToolsClient 9222 30 0)
      \<lparr>Method = ''GET'', Path = ''/json/version'', Host = ''9223-host.example'', Header = []\<rparr>
      \<lparr>upstream = GetFailed ''connection refused'', forwarded = ForwardFailed [],
       uptime_String = ''1m0s'', uptime_Seconds = 60, unix_now = 1700000000\<rparr>
     = ((NewChromeDevToolsClient 9222 30 0)\<lparr>errorCount := 1\<rparr>,
        Response \<lparr>status = 502,
                  body = Literal (''Failed to get JSON version: connection refused'' @ [CHR 0x0A])\<rparr>) \<and>
   handleJsonList (NewChromeDevToolsClient 9222 30 0)
      \<lparr>Method = ''GET'', Path = ''/json/version'', Host = ''9223-host.example'', Header = []\<rparr>
      \<lparr>upstream = GetFailed ''connection refused'', forwarded = ForwardFailed [],
       uptime_String = ''1m0s'', uptime_Seconds = 60, unix_now = 1700000000\<rparr>
     = ((NewChromeDevToolsClient 9222 30 0)\<lparr>errorCount := 1\<rparr>,
        Response \<lparr>status = 502,
                  body = Literal (''Failed to get JSON list: connection refused'' @ [CHR 0x0A])\<rparr>) \<and>
   Unmarshal_map (JArray []) = Inl ''json: cannot unmarshal array into Go value of type map[string]interface {}'' \<and>
   handleJsonVersion (NewChromeDevToolsClient 9222 30 0)
      \<lparr>Method = ''GET'', Path = ''/json/version'', Host = ''9223-host.example'', Header = []\<rparr>
      \<lparr>upstream = JsonDoc (JArray []), forwarded = ForwardFailed [],
       uptime_String = ''1m0s'', uptime_Seconds = 60, unix_now = 1700000000\<rparr>
     = ((NewChromeDevToolsClient 9222 30 0)\<lparr>errorCount := 1\<rparr>,
        Response \<lparr>status = 500,
                  body = Literal (''Failed to unmarshal response body: json: cannot unmarshal array into Go value of type map[string]interface {}'' @ [CHR 0x0A])\<rparr>) \<and>
   handleJsonList (NewChromeDevToolsClient 9222 30 0)
      \<lparr>Method = ''GET'', Path = ''/json'', Host = ''9223-host.example'', Header = []\<rparr>
      \<lparr>upstream = NotJson ''unexpected end of JSON input'', forwarded = ForwardFailed [],
       uptime_String = ''1m0s'', uptime_Seconds = 60, unix_now = 1700000000\<rparr>
     = ((NewChromeDevToolsClient 9222 30 0)\<lparr>errorCount := 1\<rparr>,
        Response \<lparr>status = 500,
                  body = Literal (''Failed to unmarshal response body: unexpected end of JSON input'' @ [CHR 0x0A])\<rparr>)"
proof -
  let ?c = "NewChromeDevToolsClient 9222 30 0"
  let ?r = "\<lparr>Method = ''GET'', Path = ''/json/version'', Host = ''9223-host.example'', Header = []\<rparr>"
  let ?rl = "\<lparr>Method = ''GET'', Path = ''/json'', Host = ''9223-host.example'', Header = []\<rparr>"
  let ?eg = "\<lparr>upstream = GetFailed ''connection refused'', forwarded = ForwardFailed [],
       uptime_String = ''1m0s'', uptime_Seconds = 60, unix_now = 1700000000\<rparr>"
  let ?es = "\<lparr>upstream = JsonDoc (JArray []), forwarded = ForwardFailed [],
       uptime_String = ''1m0s'', uptime_Seconds = 60, unix_now = 1700000000\<rparr>"
  let ?en = "\<lparr>upstream = NotJson ''unexpected end of JSON input'', forwarded = ForwardFailed [],
       uptime_String = ''1m0s'', uptime_Seconds = 60, unix_now = 1700000000\<rparr>"
  have e0: "errorCount ?c = 0" by (simp add: NewChromeDevToolsClient_def Let_def)
  have u: "Unmarshal_map (JArray []) = Inl ''json: cannot unmarshal array into Go value of type map[string]interface {}''"
    by (simp add: type_error_def)
  from discovery_handlers_failures [where e = ?eg and err = "''connection refused''" and c = ?c and r = ?r]
  have g: "handleJsonVersion ?c ?r ?eg
     = (?c\<lparr>errorCount := 1\<rparr>,
        Response \<lparr>status = 502,
                  body = Literal (''Failed to get JSON version: connection refused'' @ [CHR 0x0A])\<rparr>) \<and>
   handleJsonList ?c ?r ?eg
     = (?c\<lparr>errorCount := 1\<rparr>,
        Response \<lparr>status = 502,
                  body = Literal (''Failed to get JSON list: connection refused'' @ [CHR 0x0A])\<rparr>)"
    by (simp add: e0)
  from discovery_handlers_failures [where e = ?es and v = "JArray []" and c = ?c and r = ?r
      and err = "''json: cannot unmarshal array into Go value of type map[string]interface {}''"] u
  have s: "handleJsonVersion ?c ?r ?es
     = (?c\<lparr>errorCount := 1\<rparr>,
        Response \<lparr>status = 500,
                  body = Literal (''Failed to unmarshal response body: json: cannot unmarshal array into Go value of type map[string]interface {}'' @ [CHR 0x0A])\<rparr>)"
    by (simp add: e0)
  from discovery_handlers_failures [where e = ?en and c = ?c and r = ?rl
      and err = "''unexpected end of JSON input''"]
  have n: "handleJsonList ?c ?rl ?en
     = (?c\<lparr>errorCount := 1\<rparr>,
        Response \<lparr>status = 500,
                  body = Literal (''Failed to unmarshal response body: unexpected end of JSON input'' @ [CHR 0x0A])\<rparr>)"
    by (simp add: e0)
  from g u s n show ?thesis by blast
qed

section \<open>The discovery handlers: what comes back of the upstream document\<close>

text \<open>
  Both handlers decode the body into a Go variable and encode that variable again, so the
  document they answer with is made from the decoded value, not from the bytes they read.
\<close>

lemma handleJsonVersion_ok:
  assumes "port_of (targetHostPort c) = Inr port"
    and "upstream e = JsonDoc doc" and "Unmarshal_map doc = Inr versionData"
  shows "\<exists>versionData'.
           handleJsonVersion c r e
             = (c, Response \<lparr>status = 200, body = Encoded (Marshal_map versionData')\<rparr>) \<and>
           rel_option (same_but [''webSocketDebuggerUrl'']) versionData versionData'"
proof -
  from rewrite_version_total [OF assms(1), of versionData "Host r"]
  obtain versionData' where v': "rewrite_version versionData (targetHostPort c) (Host r) = Inr versionData'"
    by blast
  from assms(3) v' have "rel_option (same_but [''webSocketDebuggerUrl'']) versionData versionData'"
    by (rule rewrite_version_same)
  with assms(2,3) v' show ?thesis
    by (intro exI [of _ versionData']) (simp add: handleJsonVersion_def)
qed

lemma handleJsonList_ok:
  assumes "port_of (targetHostPort c) = Inr port"
    and "upstream e = JsonDoc doc" and "Unmarshal_slice doc = Inr (Some targetsData)"
  shows "\<exists>targetsData'.
           handleJsonList c r e
             = (c, Response \<lparr>status = 200, body = Encoded (Marshal_slice (Some targetsData'))\<rparr>) \<and>
           length targetsData' = length targetsData \<and>
           list_all2 (rel_option (same_but [''webSocketDebuggerUrl'', ''devtoolsFrontendUrl'']))
             targetsData targetsData'"
proof -
  from assms(3) obtain xs where "Unmarshal_elems xs = Inr targetsData"
    by (cases doc) (auto split: sum.splits)
  moreover from rewrite_targets_total [OF assms(1), of targetsData "Host r"]
  obtain ts' where ts': "rewrite_targets targetsData (targetHostPort c) (Host r) = Inr ts'" by blast
  ultimately have same: "list_all2 (rel_option (same_but [''webSocketDebuggerUrl'', ''devtoolsFrontendUrl'']))
                     targetsData ts'"
    by (rule rewrite_targets_same)
  then have "length ts' = length targetsData" by (simp add: list_all2_lengthD)
  with same assms(2,3) ts' show ?thesis
    by (intro exI [of _ ts']) (simp add: handleJsonList_def)
qed

lemma handleJsonList_nil:
  assumes "upstream e = JsonDoc doc" and "Unmarshal_slice doc = Inr None"
  shows "handleJsonList c r e = (c, Response \<lparr>status = 200, body = Encoded GoNil\<rparr>)"
  using assms by (simp add: handleJsonList_def)

lemma handleJsonVersion_decode_error:
  assumes "upstream e = JsonDoc doc" and "Unmarshal_map doc = Inl err"
  shows "handleJsonVersion c r e
     = (c\<lparr>errorCount := errorCount c + 1\<rparr>,
        Response \<lparr>status = 500,
                  body = Literal (''Failed to unmarshal response body: '' @ err @ [CHR 0x0A])\<rparr>)"
  using assms by (intro handleJsonVersion_decode_failed) simp

lemma handleJsonList_decode_error:
  assumes "upstream e = JsonDoc doc" and "Unmarshal_slice doc = Inl err"
  shows "handleJsonList c r e
     = (c\<lparr>errorCount := errorCount c + 1\<rparr>,
        Response \<lparr>status = 500,
                  body = Literal (''Failed to unmarshal response body: '' @ err @ [CHR 0x0A])\<rparr>)"
  using assms by (intro handleJsonList_decode_failed) simp

text \<open>
  Claim C4, as the code has it. The fields a discovery handler returns are those of the
  document as \<^verbatim>\<open>json.Unmarshal\<close> decoded it: every number as the float64
  nearest to it, and one value for each key, the last one the document gives it. For a
  client whose target has the form \<^verbatim>\<open>host:port\<close>, as every client the
  program builds has, and an upstream that answered with a JSON document:

    \<^item> when the document decodes into the version handler's map, \<^verbatim>\<open>/json/version\<close>
      answers 200 with a map that has the keys of the decoded one, in the same places, and
      the decoded value at every key other than \<^verbatim>\<open>webSocketDebuggerUrl\<close>
      (and \<^verbatim>\<open>null\<close> for \<^verbatim>\<open>null\<close>);
    \<^item> when it does not decode (it is no object, or a number in it is out of the float64
      range), the handler answers 500 and the error counter is one more;
    \<^item> when the document decodes into the list handler's slice, the list handler answers
      200 with as many entries in the same order, each with the keys of the decoded entry and
      the decoded value at every key other than \<^verbatim>\<open>webSocketDebuggerUrl\<close> and
      \<^verbatim>\<open>devtoolsFrontendUrl\<close>; a \<^verbatim>\<open>null\<close> document is answered with
      \<^verbatim>\<open>null\<close>;
    \<^item> when it does not decode, the handler answers 500 and the error counter is one more.
\<close>

theorem discovery_handlers_preserve_other_fields:
  assumes "port_of (targetHostPort c) = Inr port" and "upstream e = JsonDoc doc"
  shows "(Unmarshal_map doc = Inr versionData \<longrightarrow>
          (\<exists>versionData'.
             handleJsonVersion c r e
               = (c, Response \<lparr>status = 200, body = Encoded (Marshal_map versionData')\<rparr>) \<and>
             rel_option (same_but [''webSocketDebuggerUrl'']) versionData versionData')) \<and>
         (Unmarshal_map doc = Inl err \<longrightarrow>
          handleJsonVersion c r e
            = (c\<lparr>errorCount := errorCount c + 1\<rparr>,
               Response \<lparr>status = 500,
                         body = Literal (''Failed to unmarshal response body: '' @ err
                                         @ [CHR 0x0A])\<rparr>)) \<and>
         (Unmarshal_slice doc = Inr (Some targetsData) \<longrightarrow>
          (\<exists>targetsData'.
             handleJsonList c r e
               = (c, Response \<lparr>status = 200,
                               body = Encoded (Marshal_slice (Some targetsData'))\<rparr>) \<and>
             length targetsData' = length targetsData \<and>
             list_all2 (rel_option (same_but [''webSocketDebuggerUrl'', ''devtoolsFrontendUrl'']))
               targetsData targetsData')) \<and>
         (Unmarshal_slice doc = Inr None \<longrightarrow>
          handleJsonList c r e = (c, Response \<lparr>status = 200, body = Encoded GoNil\<rparr>)) \<and>
         (Unmarshal_slice doc = Inl err \<longrightarrow>
          handleJsonList c r e
            = (c\<lparr>errorCount := errorCount c + 1\<rparr>,
               Response \<lparr>status = 500,
                         body = Literal (''Failed to unmarshal response body: '' @ err
                                         @ [CHR 0x0A])\<rparr>))"
  using handleJsonVersion_ok [OF assms, of versionData r]
    handleJsonVersion_decode_error [OF assms(2), of err c r]
    handleJsonList_ok [OF assms, of targetsData r]
    handleJsonList_nil [OF assms(2), of c r]
    handleJsonList_decode_error [OF assms(2), of err c r]
  by blast

text \<open>
  The theorem at a proxy for port 9222: a version document whose members are not in the
  order of their keys, an array where the version handler wants an object, a list of one
  page and one \<^verbatim>\<open>null\<close>, the document \<^verbatim>\<open>null\<close>, and an object where
  the list handler wants an array.
\<close>

theorem discovery_handlers_preserve_other_fields_witness:
  "port_of (targetHostPort (NewChromeDevToolsClient 9222 30 0)) = Inr ''9222'' \<and>
   Unmarshal_map (JObject [(''webSocketDebuggerUrl'',
                            JString ''ws://127.0.0.1:9222/devtools/browser/abc123''),
                           (''Browser'', JString ''Chrome/138.0.7204.168'')])
     = Inr (Some [(''Browser'', GoString ''Chrome/138.0.7204.168''),
                  (''webSocketDebuggerUrl'',
                   GoString ''ws://127.0.0.1:9222/devtools/browser/abc123'')]) \<and>
   (\<exists>versionData'.
      handleJsonVersion (NewChromeDevToolsClient 9222 30 0)
          \<lparr>Method = ''GET'', Path = ''/json/version'', Host = ''9223-host.example'', Header = []\<rparr>
          \<lparr>upstream = JsonDoc (JObject
               [(''webSocketDebuggerUrl'', JString ''ws://127.0.0.1:9222/devtools/browser/abc123''),
                (''Browser'', JString ''Chrome/138.0.7204.168'')]),
           forwarded = ForwardFailed [], uptime_String = ''1m0s'', uptime_Seconds = 60,
           unix_now = 1700000000\<rparr>
        = (NewChromeDevToolsClient 9222 30 0,
           Response \<lparr>status = 200, body = Encoded (Marshal_map versionData')\<rparr>) \<and>
      rel_option (same_but [''webSocketDebuggerUrl''])
        (Some [(''Browser'', GoString ''Chrome/138.0.7204.168''),
               (''webSocketDebuggerUrl'',
                GoString ''ws://127.0.0.1:9222/devtools/browser/abc123'')]) versionData') \<and>
   Unmarshal_map (JArray [])
     = Inl ''json: cannot unmarshal array into Go value of type map[string]interface {}'' \<and>
   handleJsonVersion (NewChromeDevToolsClient 9222 30 0)
       \<lparr>Method = ''GET'', Path = ''/json/version'', Host = ''9223-host.example'', Header = []\<rparr>
       \<lparr>upstream = JsonDoc (JArray []), forwarded = ForwardFailed [], uptime_String = ''1m0s'',
        uptime_Seconds = 60, unix_now = 1700000000\<rparr>
     = ((NewChromeDevToolsClient 9222 30 0)\<lparr>errorCount := 1\<rparr>,
        Response \<lparr>status = 500,
                  body = Literal (''Failed to unmarshal response body: json: cannot unmarshal array into Go value of type map[string]interface {}''
                                  @ [CHR 0x0A])\<rparr>) \<and>
   Unmarshal_slice (JArray [JObject [(''type'', JString ''page''), (''id'', JString ''27E1'')], JNull])
     = Inr (Some [Some [(''id'', GoString ''27E1''), (''type'', GoString ''page'')], None]) \<and>
   (\<exists>targetsData'.
      handleJsonList (NewChromeDevToolsClient 9222 30 0)
          \<lparr>Method = ''GET'', Path = ''/json/list'', Host = ''9223-host.example'', Header = []\<rparr>
          \<lparr>upstream = JsonDoc (JArray
               [JObject [(''type'', JString ''page''), (''id'', JString ''27E1'')], JNull]),
           forwarded = ForwardFailed [], uptime_String = ''1m0s'', uptime_Seconds = 60,
           unix_now = 1700000000\<rparr>
        = (NewChromeDevToolsClient 9222 30 0,
           Response \<lparr>status = 200, body = Encoded (Marshal_slice (Some targetsData'))\<rparr>) \<and>
      length targetsData' = 2 \<and>
      list_all2 (rel_option (same_but [''webSocketDebuggerUrl'', ''devtoolsFrontendUrl'']))
        [Some [(''id'', GoString ''27E1''), (''type'', GoString ''page'')], None] targetsData') \<and>
   Unmarshal_slice JNull = Inr None \<and>
   handleJsonList (NewChromeDevToolsClient 9222 30 0)
       \<lparr>Method = ''GET'', Path = ''/json/list'', Host = ''9223-host.example'', Header = []\<rparr>
       \<lparr>upstream = JsonDoc JNull, forwarded = ForwardFailed [], uptime_String = ''1m0s'',
        uptime_Seconds = 60, unix_now = 1700000000\<rparr>
     = (NewChromeDevToolsClient 9222 30 0, Response \<lparr>status = 200, body = Encoded GoNil\<rparr>) \<and>
   Unmarshal_slice (JObject [])
     = Inl ''json: cannot unmarshal object into Go value of type []map[string]interface {}'' \<and>
   handleJsonList (NewChromeDevToolsClient 9222 30 0)
       \<lparr>Method = ''GET'', Path = ''/json/list'', Host = ''9223-host.example'', Header = []\<rparr>
       \<lparr>upstream = JsonDoc (JObject []), forwarded = ForwardFailed [], uptime_String = ''1m0s'',
        uptime_Seconds = 60, unix_now = 1700000000\<rparr>
     = ((NewChromeDevToolsClient 9222 30 0)\<lparr>errorCount := 1\<rparr>,
        Response \<lparr>status = 500,
                  body = Literal (''Failed to unmarshal response body: json: cannot unmarshal object into Go value of type []map[string]interface {}''
                                  @ [CHR 0x0A])\<rparr>)"
proof -
  let ?c = "NewChromeDevToolsClient 9222 30 0"
  let ?dv = "JObject [(''webSocketDebuggerUrl'', JString ''ws://127.0.0.1:9222/devtools/browser/abc123''),
                      (''Browser'', JString ''Chrome/138.0.7204.168'')]"
  let ?m = "[(''Browser'', GoString ''Chrome/138.0.7204.168''),
             (''webSocketDebuggerUrl'', GoString ''ws://127.0.0.1:9222/devtools/browser/abc123'')]"
  let ?dl = "JArray [JObject [(''type'', JString ''page''), (''id'', JString ''27E1'')], JNull]"
  let ?ts = "[Some [(''id'', GoString ''27E1''), (''type'', GoString ''page'')], None]"
  let ?rv = "\<lparr>Method = ''GET'', Path = ''/json/version'', Host = ''9223-host.example'', Header = []\<rparr>"
  let ?rl = "\<lparr>Method = ''GET'', Path = ''/json/list'', Host = ''9223-host.example'', Header = []\<rparr>"
  let ?env = "\<lambda>d. \<lparr>upstream = JsonDoc d, forwarded = ForwardFailed [], uptime_String = ''1m0s'',
                     uptime_Seconds = 60, unix_now = 1700000000\<rparr>"
  let ?ev = "\<lambda>t. ''json: cannot unmarshal '' @ t"
  have e0: "errorCount ?c = 0" by (simp add: NewChromeDevToolsClient_def Let_def)
  have p: "port_of (targetHostPort ?c) = Inr ''9222''"
    by (simp add: client_9222 port_of_def index1_def)
  have dv: "Unmarshal_map ?dv = Inr (Some ?m)" by (simp add: Unmarshal_object_def)
  have da: "Unmarshal_map (JArray [])
     = Inl ''json: cannot unmarshal array into Go value of type map[string]interface {}''"
    by (simp add: type_error_def)
  have dl: "Unmarshal_slice ?dl = Inr (Some ?ts)" by (simp add: Unmarshal_object_def)
  have dob: "Unmarshal_slice (JObject [])
     = Inl ''json: cannot unmarshal object into Go value of type []map[string]interface {}''"
    by (simp add: type_error_def)
  have u: "upstream (?env d) = JsonDoc d" for d by simp
  from discovery_handlers_preserve_other_fields [OF p u, where versionData = "Some ?m" and r = ?rv] dv
  have 1: "\<exists>versionData'.
      handleJsonVersion ?c ?rv (?env ?dv)
        = (?c, Response \<lparr>status = 200, body = Encoded (Marshal_map versionData')\<rparr>) \<and>
      rel_option (same_but [''webSocketDebuggerUrl'']) (Some ?m) versionData'"
    by blast
  from discovery_handlers_preserve_other_fields [OF p u, where r = ?rv
      and err = "''json: cannot unmarshal array into Go value of type map[string]interface {}''"] da
  have 2: "handleJsonVersion ?c ?rv (?env (JArray []))
     = (?c\<lparr>errorCount := 1\<rparr>,
        Response \<lparr>status = 500,
                  body = Literal (''Failed to unmarshal response body: json: cannot unmarshal array into Go value of type map[string]interface {}''
                                  @ [CHR 0x0A])\<rparr>)"
    by (simp add: e0)
  from discovery_handlers_preserve_other_fields [OF p u, where targetsData = ?ts and r = ?rl] dl
  have 3: "\<exists>targetsData'.
      handleJsonList ?c ?rl (?env ?dl)
        = (?c, Response \<lparr>status = 200, body = Encoded (Marshal_slice (Some targetsData'))\<rparr>) \<and>
      length targetsData' = 2 \<and>
      list_all2 (rel_option (same_but [''webSocketDebuggerUrl'', ''devtoolsFrontendUrl'']))
        ?ts targetsData'"
    by (simp add: numeral_2_eq_2)
  have dn: "Unmarshal_slice JNull = Inr None" by simp
  from discovery_handlers_preserve_other_fields [OF p u, where r = ?rl] dn
  have 5: "handleJsonList ?c ?rl (?env JNull)
     = (?c, Response \<lparr>status = 200, body = Encoded GoNil\<rparr>)"
    by simp
  from discovery_handlers_preserve_other_fields [OF p u, where r = ?rl
      and err = "''json: cannot unmarshal object into Go value of type []map[string]interface {}''"] dob
  have 4: "handleJsonList ?c ?rl (?env (JObject []))
     = (?c\<lparr>errorCount := 1\<rparr>,
        Response \<lparr>status = 500,
                  body = Literal (''Failed to unmarshal response body: json: cannot unmarshal object into Go value of type []map[string]interface {}''
                                  @ [CHR 0x0A])\<rparr>)"
    by (simp add: e0)
  from p dv 1 da 2 dl 3 dn 5 dob 4 show ?thesis by blast
qed

text \<open>
  Claim C4 as it is written fails at three version documents. With the member
  \<^verbatim>\<open>"n": 1e400\<close> the handler returns no document at all: the number is out of
  the float64 range, the answer is 500 and the error is counted. With the member
  \<^verbatim>\<open>"big": 12345678901234567890\<close> the answer is 200 and the field comes back as
  12345678901234567168, the float64 nearest to it. With two members named
  \<^verbatim>\<open>Browser\<close> the answer holds one, with the value of the second.
\<close>

theorem discovery_handlers_preserve_other_fields_counterexample:
  "handleJsonVersion (NewChromeDevToolsClient 9222 30 0)
      \<lparr>Method = ''GET'', Path = ''/json/version'', Host = ''9223-host.example'', Header = []\<rparr>
      \<lparr>upstream = JsonDoc (JObject [(''Browser'', JString ''Chrome/138.0.7204.168''),
                                    (''n'', JNumber ''1e400'' (10 ^ 400))]),
       forwarded = ForwardFailed [], uptime_String = ''1m0s'', uptime_Seconds = 60,
       unix_now = 1700000000\<rparr>
     = (\<lparr>targetHostPort = ''localhost:9222'', clientTimeout = 30, proxyTarget = ''localhost:9222'',
         requestCount = 0, errorCount = 1, startTime = 0\<rparr>,
        Response \<lparr>status = 500,
                  body = Literal (''Failed to unmarshal response body: json: cannot unmarshal number 1e400 into Go value of type float64''
                                  @ [CHR 0x0A])\<rparr>) \<and>
   handleJsonVersion (NewChromeDevToolsClient 9222 30 0)
      \<lparr>Method = ''GET'', Path = ''/json/version'', Host = ''9223-host.example'', Header = []\<rparr>
      \<lparr>upstream = JsonDoc (JObject [(''Browser'', JString ''Chrome/138.0.7204.168''),
                                    (''big'', JNumber ''12345678901234567890'' 12345678901234567890)]),
       forwarded = ForwardFailed [], uptime_String = ''1m0s'', uptime_Seconds = 60,
       unix_now = 1700000000\<rparr>
     = (\<lparr>targetHostPort = ''localhost:9222'', clientTimeout = 30, proxyTarget = ''localhost:9222'',
         requestCount = 0, errorCount = 0, startTime = 0\<rparr>,
        Response \<lparr>status = 200,
                  body = Encoded (GoMap [(''Browser'', GoString ''Chrome/138.0.7204.168''),
                                         (''big'', GoFloat64 12345678901234567168)])\<rparr>) \<and>
   (12345678901234567168 :: rat) \<noteq> 12345678901234567890 \<and>
   handleJsonVersion (NewChromeDevToolsClient 9222 30 0)
      \<lparr>Method = ''GET'', Path = ''/json/version'', Host = ''9223-host.example'', Header = []\<rparr>
      \<lparr>upstream = JsonDoc (JObject [(''Browser'', JString ''Chrome/138.0.7204.168''),
                                    (''Browser'', JString ''HeadlessChrome/138.0.7204.168'')]),
       forwarded = ForwardFailed [], uptime_String = ''1m0s'', uptime_Seconds = 60,
       unix_now = 1700000000\<rparr>
     = (\<lparr>targetHostPort = ''localhost:9222'', clientTimeout = 30, proxyTarget = ''localhost:9222'',
         requestCount = 0, errorCount = 0, startTime = 0\<rparr>,
        Response \<lparr>status = 200,
                  body = Encoded (GoMap [(''Browser'',
                                          GoString ''HeadlessChrome/138.0.7204.168'')])\<rparr>)"
  by (simp add: handleJsonVersion_def Unmarshal_object_def ParseFloat_1e400 [simplified]
      ParseFloat_big rewrite_version_def rewrite_ws_field_def count_error_def http_Error_def
      client_9222)

section \<open>The router\<close>

lemma ServeHTTP_special:
  "Method r = ''GET'' \<Longrightarrow> Path r = ''/health'' \<Longrightarrow>
     ServeHTTP c r e = handleHealth (c\<lparr>requestCount := requestCount c + 1\<rparr>) r e"
  "Method r = ''GET'' \<Longrightarrow> Path r = ''/metrics'' \<Longrightarrow>
     ServeHTTP c r e = handleMetrics (c\<lparr>requestCount := requestCount c + 1\<rparr>) r e"
  "Method r = ''GET'' \<Longrightarrow> Path r = ''/json/version'' \<or> Path r = ''/json/version/'' \<Longrightarrow>
     ServeHTTP c r e = handleJsonVersion (c\<lparr>requestCount := requestCount c + 1\<rparr>) r e"
  "Method r = ''GET'' \<Longrightarrow> Path r = ''/json'' \<or> Path r = ''/json/'' \<or> Path r = ''/json/list'' \<Longrightarrow>
     ServeHTTP c r e = handleJsonList (c\<lparr>requestCount := requestCount c + 1\<rparr>) r e"
  by (auto simp: ServeHTTP_def Let_def)

lemma ServeHTTP_forward:
  "Method r \<noteq> ''GET'' \<or>
   Path r \<notin> set [''/health'', ''/metrics'', ''/json/version'', ''/json/version/'',
                  ''/json'', ''/json/'', ''/json/list''] \<Longrightarrow>
   ServeHTTP c r e = proxy_ServeHTTP (c\<lparr>requestCount := requestCount c + 1\<rparr>) r e"
  by (auto simp: ServeHTTP_def Let_def)

text \<open>
  Claim C6. \<^verbatim>\<open>ServeHTTP\<close> hands each request to one handler: a GET of
  \<^verbatim>\<open>/health\<close> to the health handler, of \<^verbatim>\<open>/metrics\<close> to the metrics
  handler, of \<^verbatim>\<open>/json/version\<close> or \<^verbatim>\<open>/json/version/\<close> to the version
  handler, of \<^verbatim>\<open>/json\<close>, \<^verbatim>\<open>/json/\<close> or \<^verbatim>\<open>/json/list\<close>
  to the list handler, whatever its headers are; every other request, a WebSocket upgrade
  or not, and so every request of another method, to the reverse proxy. A request is a
  WebSocket upgrade when its lower-cased \<^verbatim>\<open>Upgrade\<close> header is
  \<^verbatim>\<open>websocket\<close> and its lower-cased \<^verbatim>\<open>Connection\<close> header holds
  \<^verbatim>\<open>upgrade\<close>.
\<close>

theorem ServeHTTP_dispatch:
  "(Method r = ''GET'' \<and> Path r = ''/health'' \<longrightarrow>
      ServeHTTP c r e = handleHealth (c\<lparr>requestCount := requestCount c + 1\<rparr>) r e) \<and>
   (Method r = ''GET'' \<and> Path r = ''/metrics'' \<longrightarrow>
      ServeHTTP c r e = handleMetrics (c\<lparr>requestCount := requestCount c + 1\<rparr>) r e) \<and>
   (Method r = ''GET'' \<and> (Path r = ''/json/version'' \<or> Path r = ''/json/version/'') \<longrightarrow>
      ServeHTTP c r e = handleJsonVersion (c\<lparr>requestCount := requestCount c + 1\<rparr>) r e) \<and>
   (Method r = ''GET'' \<and> (Path r = ''/json'' \<or> Path r = ''/json/'' \<or> Path r = ''/json/list'') \<longrightarrow>
      ServeHTTP c r e = handleJsonList (c\<lparr>requestCount := requestCount c + 1\<rparr>) r e) \<and>
   (Method r \<noteq> ''GET'' \<or>
    Path r \<notin> set [''/health'', ''/metrics'', ''/json/version'', ''/json/version/'',
                   ''/json'', ''/json/'', ''/json/list''] \<longrightarrow>
      ServeHTTP c r e = proxy_ServeHTTP (c\<lparr>requestCount := requestCount c + 1\<rparr>) r e) \<and>
   (isWebSocketUpgrade r \<longleftrightarrow>
      ToLower (Header_Get (Header r) ''Upgrade'') = ''websocket'' \<and>
      Contains (ToLower (Header_Get (Header r) ''Connection'')) ''upgrade'')"
  using ServeHTTP_special [of r c e] ServeHTTP_forward [of r c e]
  by (simp add: isWebSocketUpgrade_def)

text \<open>
  The theorem at seven requests: a GET of /health that carries upgrade headers still goes
  to the health handler; a POST of /json and a WebSocket upgrade go to the reverse proxy.
\<close>

theorem ServeHTTP_dispatch_witness:
  "ServeHTTP (NewChromeDevToolsClient 9222 30 0)
      \<lparr>Method = ''GET'', Path = ''/health'', Host = ''9223-host.example'',
       Header = [(''Upgrade'', [''websocket'']), (''Connection'', [''Upgrade''])]\<rparr>
      \<lparr>upstream = GetFailed ''connection refused'', forwarded = ForwardFailed ''connection refused'',
       uptime_String = ''1m0s'', uptime_Seconds = 60, unix_now = 1700000000\<rparr>
     = handleHealth ((NewChromeDevToolsClient 9222 30 0)\<lparr>requestCount := 1\<rparr>)
      \<lparr>Method = ''GET'', Path = ''/health'', Host = ''9223-host.example'',
       Header = [(''Upgrade'', [''websocket'']), (''Connection'', [''Upgrade''])]\<rparr>
      \<lparr>upstream = GetFailed ''connection refused'', forwarded = ForwardFailed ''connection refused'',
       uptime_String = ''1m0s'', uptime_Seconds = 60, unix_now = 1700000000\<rparr> \<and>
   ServeHTTP (NewChromeDevToolsClient 9222 30 0)
      \<lparr>Method = ''GET'', Path = ''/metrics'', Host = ''9223-host.example'', Header = []\<rparr>
      \<lparr>upstream = GetFailed ''connection refused'', forwarded = ForwardFailed ''connection refused'',
       uptime_String = ''1m0s'', uptime_Seconds = 60, unix_now = 1700000000\<rparr>
     = handleMetrics ((NewChromeDevToolsClient 9222 30 0)\<lparr>requestCount := 1\<rparr>)
      \<lparr>Method = ''GET'', Path = ''/metrics'', Host = ''9223-host.example'', Header = []\<rparr>
      \<lparr>upstream = GetFailed ''connection refused'', forwarded = ForwardFailed ''connection refused'',
       uptime_String = ''1m0s'', uptime_Seconds = 60, unix_now = 1700000000\<rparr> \<and>
   ServeHTTP (NewChromeDevToolsClient 9222 30 0)
      \<lparr>Method = ''GET'', Path = ''/json/version/'', Host = ''9223-host.example'', Header = []\<rparr>
      \<lparr>upstream = GetFailed ''connection refused'', forwarded = ForwardFailed ''connection refused'',
       uptime_String = ''1m0s'', uptime_Seconds = 60, unix_now = 1700000000\<rparr>
     = handleJsonVersion ((NewChromeDevToolsClient 9222 30 0)\<lparr>requestCount := 1\<rparr>)
      \<lparr>Method = ''GET'', Path = ''/json/version/'', Host = ''9223-host.example'', Header = []\<rparr>
      \<lparr>upstream = GetFailed ''connection refused'', forwarded = ForwardFailed ''connection refused'',
       uptime_String = ''1m0s'', uptime_Seconds = 60, unix_now = 1700000000\<rparr> \<and>
   ServeHTTP (NewChromeDevToolsClient 9222 30 0)
      \<lparr>Method = ''GET'', Path = ''/json/list'', Host = ''9223-host.example'', Header = []\<rparr>
      \<lparr>upstream = GetFailed ''connection refused'', forwarded = ForwardFailed ''connection refused'',
       uptime_String = ''1m0s'', uptime_Seconds = 60, unix_now = 1700000000\<rparr>
     = handleJsonList ((NewChromeDevToolsClient 9222 30 0)\<lparr>requestCount := 1\<rparr>)
      \<lparr>Method = ''GET'', Path = ''/json/list'', Host = ''9223-host.example'', Header = []\<rparr>
      \<lparr>upstream = GetFailed ''connection refused'', forwarded = ForwardFailed ''connection refused'',
       uptime_String = ''1m0s'', uptime_Seconds = 60, unix_now = 1700000000\<rparr> \<and>
   ServeHTTP (NewChromeDevToolsClient 9222 30 0)
      \<lparr>Method = ''POST'', Path = ''/json'', Host = ''9223-host.example'', Header = []\<rparr>
      \<lparr>upstream = GetFailed ''connection refused'', forwarded = ForwardFailed ''connection refused'',
       uptime_String = ''1m0s'', uptime_Seconds = 60, unix_now = 1700000000\<rparr>
     = proxy_ServeHTTP ((NewChromeDevToolsClient 9222 30 0)\<lparr>requestCount := 1\<rparr>)
      \<lparr>Method = ''POST'', Path = ''/json'', Host = ''9223-host.example'', Header = []\<rparr>
      \<lparr>upstream = GetFailed ''connection refused'', forwarded = ForwardFailed ''connection refused'',
       uptime_String = ''1m0s'', uptime_Seconds = 60, unix_now = 1700000000\<rparr> \<and>
   isWebSocketUpgrade
      \<lparr>Method = ''GET'', Path = ''/devtools/page/XYZ'', Host = ''9223-host.example'',
       Header = [(''Upgrade'', [''WebSocket'']), (''Connection'', [''keep-alive, Upgrade''])]\<rparr> \<and>
   ServeHTTP (NewChromeDevToolsClient 9222 30 0)
      \<lparr>Method = ''GET'', Path = ''/devtools/page/XYZ'', Host = ''9223-host.example'',
       Header = [(''Upgrade'', [''WebSocket'']), (''Connection'', [''keep-alive, Upgrade''])]\<rparr>
      \<lparr>upstream = GetFailed ''connection refused'', forwarded = ForwardFailed ''connection refused'',
       uptime_String = ''1m0s'', uptime_Seconds = 60, unix_now = 1700000000\<rparr>
     = proxy_ServeHTTP ((NewChromeDevToolsClient 9222 30 0)\<lparr>requestCount := 1\<rparr>)
      \<lparr>Method = ''GET'', Path = ''/devtools/page/XYZ'', Host = ''9223-host.example'',
       Header = [(''Upgrade'', [''WebSocket'']), (''Connection'', [''keep-alive, Upgrade''])]\<rparr>
      \<lparr>upstream = GetFailed ''connection refused'', forwarded = ForwardFailed ''connection refused'',
       uptime_String = ''1m0s'', uptime_Seconds = 60, unix_now = 1700000000\<rparr>"
proof -
  let ?c = "NewChromeDevToolsClient 9222 30 0"
  let ?e = "\<lparr>upstream = GetFailed ''connection refused'', forwarded = ForwardFailed ''connection refused'',
       uptime_String = ''1m0s'', uptime_Seconds = 60, unix_now = 1700000000\<rparr>"
  let ?health = "\<lparr>Method = ''GET'', Path = ''/health'', Host = ''9223-host.example'',
       Header = [(''Upgrade'', [''websocket'']), (''Connection'', [''Upgrade''])]\<rparr>"
  let ?metrics = "\<lparr>Method = ''GET'', Path = ''/metrics'', Host = ''9223-host.example'', Header = []\<rparr>"
  let ?version = "\<lparr>Method = ''GET'', Path = ''/json/version/'', Host = ''9223-host.example'', Header = []\<rparr>"
  let ?list = "\<lparr>Method = ''GET'', Path = ''/json/list'', Host = ''9223-host.example'', Header = []\<rparr>"
  let ?post = "\<lparr>Method = ''POST'', Path = ''/json'', Host = ''9223-host.example'', Header = []\<rparr>"
  let ?ws = "\<lparr>Method = ''GET'', Path = ''/devtools/page/XYZ'', Host = ''9223-host.example'',
       Header = [(''Upgrade'', [''WebSocket'']), (''Connection'', [''keep-alive, Upgrade''])]\<rparr>"
  have r0: "requestCount ?c = 0" by (simp add: NewChromeDevToolsClient_def Let_def)
  have 1: "ServeHTTP ?c ?health ?e = handleHealth (?c\<lparr>requestCount := 1\<rparr>) ?health ?e"
    using ServeHTTP_dispatch [where r = ?health and c = ?c and e = ?e] by (simp add: r0)
  have 2: "ServeHTTP ?c ?metrics ?e = handleMetrics (?c\<lparr>requestCount := 1\<rparr>) ?metrics ?e"
    using ServeHTTP_dispatch [where r = ?metrics and c = ?c and e = ?e] by (simp add: r0)
  have 3: "ServeHTTP ?c ?version ?e = handleJsonVersion (?c\<lparr>requestCount := 1\<rparr>) ?version ?e"
    using ServeHTTP_dispatch [where r = ?version and c = ?c and e = ?e] by (simp add: r0)
  have 4: "ServeHTTP ?c ?list ?e = handleJsonList (?c\<lparr>requestCount := 1\<rparr>) ?list ?e"
    using ServeHTTP_dispatch [where r = ?list and c = ?c and e = ?e] by (simp add: r0)
  have 5: "ServeHTTP ?c ?post ?e = proxy_ServeHTTP (?c\<lparr>requestCount := 1\<rparr>) ?post ?e"
    using ServeHTTP_dispatch [where r = ?post and c = ?c and e = ?e] by (simp add: r0)
  have 6: "isWebSocketUpgrade ?ws"
    using ServeHTTP_dispatch [where r = ?ws and c = ?c and e = ?e]
    by (simp add: Header_Get_def lower_examples)
  have 7: "ServeHTTP ?c ?ws ?e = proxy_ServeHTTP (?c\<lparr>requestCount := 1\<rparr>) ?ws ?e"
    using ServeHTTP_dispatch [where r = ?ws and c = ?c and e = ?e] by (simp add: r0)
  from 1 2 3 4 5 6 7 show ?thesis by blast
qed

section \<open>The counters\<close>

lemma requestCount_handleHealth: "requestCount (fst (handleHealth c r e)) = requestCount c"
  by (simp add: handleHealth_def split: upstream_reply.splits)

lemma requestCount_handleMetrics: "requestCount (fst (handleMetrics c r e)) = requestCount c"
  by (simp add: handleMetrics_def)

lemma requestCount_handleJsonVersion: "requestCount (fst (handleJsonVersion c r e)) = requestCount c"
  by (simp add: handleJsonVersion_def count_error_def split: upstream_reply.splits sum.splits)

lemma requestCount_handleJsonList: "requestCount (fst (handleJsonList c r e)) = requestCount c"
  by (simp add: handleJsonList_def count_error_def
      split: upstream_reply.splits sum.splits option.splits)

lemma requestCount_proxy: "requestCount (fst (proxy_ServeHTTP c r e)) = requestCount c"
  by (simp add: proxy_ServeHTTP_def split: forward_result.splits)

lemma errorCount_proxy: "errorCount (fst (proxy_ServeHTTP c r e)) = errorCount c"
  by (simp add: proxy_ServeHTTP_def split: forward_result.splits)

lemma ServeHTTP_requestCount: "requestCount (fst (ServeHTTP c r e)) = requestCount c + 1"
  by (simp add: ServeHTTP_def Let_def requestCount_handleHealth requestCount_handleMetrics
      requestCount_handleJsonVersion requestCount_handleJsonList requestCount_proxy)

lemma ServeHTTP_metrics:
  "Method r = ''GET'' \<Longrightarrow> Path r = ''/metrics'' \<Longrightarrow>
   ServeHTTP c r e = handleMetrics (c\<lparr>requestCount := requestCount c + 1\<rparr>) r e"
  by (simp add: ServeHTTP_def Let_def)

lemma sint_succ:
  assumes "sint (w :: 64 word) < 2 ^ 63 - 1"
  shows "sint (w + 1) = sint w + 1"
proof -
  have "sint (w + 1) = signed_take_bit 63 (sint w + sint (1 :: 64 word))"
    by (simp add: sint_word_add)
  also have "sint (1 :: 64 word) = 1" by simp
  also have "signed_take_bit 63 (sint w + 1) = sint w + 1"
    by (rule signed_take_bit_int_eq_self) (use assms sint_ge [of w] in simp_all)
  finally show ?thesis .
qed

text \<open>
  Claim C10. \<^verbatim>\<open>ServeHTTP\<close> adds one to the request counter before the switch,
  and no handler changes it afterwards: whatever the request and whatever the world
  answers, the counter the call leaves is the old one plus one, in \<^verbatim>\<open>int64\<close>
  arithmetic (exactly one more as an integer unless the counter was at its maximum). The
  metrics handler runs on the client with the counter already increased, so the
  \<^verbatim>\<open>requests_total\<close> of a \<^verbatim>\<open>/metrics\<close> response counts the request
  that asked for it.
\<close>

theorem ServeHTTP_counts_every_request:
  "requestCount (fst (ServeHTTP c r e)) = requestCount c + 1 \<and>
   (sint (requestCount c) < 2 ^ 63 - 1 \<longrightarrow>
    sint (requestCount (fst (ServeHTTP c r e))) = sint (requestCount c) + 1) \<and>
   (Method r = ''GET'' \<and> Path r = ''/metrics'' \<longrightarrow>
    snd (ServeHTTP c r e)
      = Response \<lparr>status = 200,
                  body = EncodedLine (GoMap [(''errors_total'', GoInt64 (errorCount c)),
                                             (''requests_total'', GoInt64 (requestCount c + 1)),
                                             (''target_host'', GoString (targetHostPort c)),
                                             (''uptime_seconds'', GoFloat64 (uptime_Seconds e))])\<rparr>)"
proof (intro conjI impI)
  show "requestCount (fst (ServeHTTP c r e)) = requestCount c + 1"
    by (rule ServeHTTP_requestCount)
next
  assume "sint (requestCount c) < 2 ^ 63 - 1"
  then have "sint (requestCount c + 1) = sint (requestCount c) + 1" by (rule sint_succ)
  then show "sint (requestCount (fst (ServeHTTP c r e))) = sint (requestCount c) + 1"
    by (simp only: ServeHTTP_requestCount)
next
  assume "Method r = ''GET'' \<and> Path r = ''/metrics''"
  then have "ServeHTTP c r e = handleMetrics (c\<lparr>requestCount := requestCount c + 1\<rparr>) r e"
    by (simp add: ServeHTTP_metrics)
  then show "snd (ServeHTTP c r e)
      = Response \<lparr>status = 200,
                  body = EncodedLine (GoMap [(''errors_total'', GoInt64 (errorCount c)),
                                             (''requests_total'', GoInt64 (requestCount c + 1)),
                                             (''target_host'', GoString (targetHostPort c)),
                                             (''uptime_seconds'', GoFloat64 (uptime_Seconds e))])\<rparr>"
    by (simp add: handleMetrics_def)
qed

text \<open>The theorem at the first request a fresh proxy receives, a GET of /metrics.\<close>

theorem ServeHTTP_counts_every_request_witness:
  "sint (requestCount (NewChromeDevToolsClient 9222 30 0)) < 2 ^ 63 - 1 \<and>
   sint (requestCount (fst (ServeHTTP (NewChromeDevToolsClient 9222 30 0)
      \<lparr>Method = ''GET'', Path = ''/metrics'', Host = ''9223-host.example'', Header = []\<rparr>
      \<lparr>upstream = GetFailed ''connection refused'', forwarded = ForwardFailed ''connection refused'',
       uptime_String = ''1m0s'', uptime_Seconds = 60, unix_now = 1700000000\<rparr>))) = 1 \<and>
   snd (ServeHTTP (NewChromeDevToolsClient 9222 30 0)
      \<lparr>Method = ''GET'', Path = ''/metrics'', Host = ''9223-host.example'', Header = []\<rparr>
      \<lparr>upstream = GetFailed ''connection refused'', forwarded = ForwardFailed ''connection refused'',
       uptime_String = ''1m0s'', uptime_Seconds = 60, unix_now = 1700000000\<rparr>)
     = Response \<lparr>status = 200,
                 body = EncodedLine (GoMap [(''errors_total'', GoInt64 0),
                                            (''requests_total'', GoInt64 1),
                                            (''target_host'', GoString ''localhost:9222''),
                                            (''uptime_seconds'', GoFloat64 60)])\<rparr>"
  using ServeHTTP_counts_every_request [of "NewChromeDevToolsClient 9222 30 0"
      "\<lparr>Method = ''GET'', Path = ''/metrics'', Host = ''9223-host.example'', Header = []\<rparr>"
      "\<lparr>upstream = GetFailed ''connection refused'', forwarded = ForwardFailed ''connection refused'',
       uptime_String = ''1m0s'', uptime_Seconds = 60, unix_now = 1700000000\<rparr>"]
  by (simp add: client_9222)

section \<open>The reverse proxy and the error counter\<close>

lemma ServeHTTP_forward_errorCount:
  assumes "Method r \<noteq> ''GET'' \<or>
           Path r \<notin> set [''/health'', ''/metrics'', ''/json/version'', ''/json/version/'',
                          ''/json'', ''/json/'', ''/json/list'']"
  shows "errorCount (fst (ServeHTTP c r e)) = errorCount c"
  using ServeHTTP_forward [OF assms, of c e] by (simp add: errorCount_proxy)

text \<open>
  Claim C7 at a request the proxy forwards while the browser is not reachable. The request
  counter is increased, but the error counter is not: \<^verbatim>\<open>errorCount\<close> is only
  written by the two discovery handlers, and the reverse proxy is built without an
  \<^verbatim>\<open>ErrorHandler\<close> that would count its failures.
\<close>

theorem forwarder_failure_leaves_errorCount:
  "ServeHTTP (NewChromeDevToolsClient 9222 30 0)
      \<lparr>Method = ''POST'', Path = ''/json/new'', Host = ''9223-host.example'', Header = []\<rparr>
      \<lparr>upstream = GetFailed ''connection refused'', forwarded = ForwardFailed ''connection refused'',
       uptime_String = ''1m0s'', uptime_Seconds = 60, unix_now = 1700000000\<rparr>
     = (\<lparr>targetHostPort = ''localhost:9222'', clientTimeout = 30, proxyTarget = ''localhost:9222'',
         requestCount = 1, errorCount = 0, startTime = 0\<rparr>,
        Response \<lparr>status = 502, body = Literal []\<rparr>)"
  by (simp add: ServeHTTP_def Let_def proxy_ServeHTTP_def client_9222)

section \<open>Where the internal address is replaced, and where it is not\<close>

lemma prefix_ws_straddle:
  assumes "prefix ''ws://'' (u @ ''wss://'' @ t)"
  shows "prefix ''ws://'' u"
proof (cases "5 \<le> length u")
  case True
  have "length ''ws://'' \<le> length u" using True by simp
  with assms show ?thesis by (metis prefix_length_prefix prefixI)
next
  case False
  then have "length u < 5" by simp
  then consider "u = []" | a where "u = [a]" | a b where "u = [a, b]"
    | a b c where "u = [a, b, c]" | a b c d where "u = [a, b, c, d]"
    by (cases u; cases "tl u"; cases "tl (tl u)"; cases "tl (tl (tl u))";
        cases "tl (tl (tl (tl u)))") auto
  then show ?thesis using assms by cases auto
qed

lemma no_ws_straddle:
  assumes "\<not> Contains pre ''ws://''" and "\<not> Contains t ''ws://''"
  shows "\<not> Contains (pre @ ''wss://'' @ t) ''ws://''"
  using assms(1)
proof (induction pre)
  case Nil
  show ?case using assms(2) no_ws_in_wss [of t "[]"] by auto
next
  case (Cons x pre)
  from Cons.prems have np: "\<not> prefix ''ws://'' (x # pre)" and nc: "\<not> Contains pre ''ws://''"
    by auto
  have "\<not> prefix ''ws://'' ((x # pre) @ ''wss://'' @ t)"
    using np prefix_ws_straddle [of "x # pre" t] by blast
  with Cons.IH [OF nc] show ?case by simp
qed

lemma patterns_port: "patterns thp = Inr ps \<Longrightarrow> \<exists>port. port_of thp = Inr port"
  by (cases "port_of thp") (simp_all add: patterns_def)

lemma patterns_begin_ws:
  "patterns thp = Inr ps \<Longrightarrow> list_all (\<lambda>q. \<exists>q'. q = ''ws://'' @ q') ps"
  by (auto simp: patterns_def split: sum.splits)

lemma rewritten_free:
  assumes "patterns thp = Inr ps"
    and "\<not> Contains pre ''ws://''" and "\<not> Contains (pub @ post) ''ws://''"
  shows "list_all (\<lambda>q. \<not> Contains (pre @ ''wss://'' @ pub @ post) q) ps"
proof -
  have free: "\<not> Contains (pre @ ''wss://'' @ pub @ post) ''ws://''"
    using assms(2,3) by (rule no_ws_straddle)
  have "\<not> Contains (pre @ ''wss://'' @ pub @ post) q" if "\<exists>q'. q = ''ws://'' @ q'" for q
  proof -
    from that obtain q' where "q = ''ws://'' @ q'" by blast
    with free Contains_append_left [of "pre @ ''wss://'' @ pub @ post" "''ws://''" q']
    show ?thesis by blast
  qed
  with patterns_begin_ws [OF assms(1)] show ?thesis
    by (simp add: list_all_iff)
qed

lemma rewrite_ws_field_first:
  assumes "patterns thp = Inr (qs @ p # rs)"
    and "map_of m ''webSocketDebuggerUrl'' = Some (GoString (pre @ p @ post))"
    and "list_all (\<lambda>q. \<not> Contains (pre @ p @ post) q) qs"
    and "\<not> Contains (pre @ butlast p) p"
  shows "\<exists>m'. rewrite_ws_field m thp pub = Inr m' \<and>
              map_of m' ''webSocketDebuggerUrl''
                = Some (GoString (pre @ ''wss://'' @ pub @ post))"
proof -
  have "p \<noteq> []" using patterns_nonempty [OF assms(1), of p] by simp
  with assms(3,4)
  have "rewrite_loop (qs @ p # rs) (pre @ p @ post) pub = pre @ ''wss://'' @ pub @ post"
    by (intro rewrite_loop_first_occurrence)
  with assms(1)
  have "rewriteWebSocketURL (pre @ p @ post) thp pub = Inr (pre @ ''wss://'' @ pub @ post)"
    by (simp add: rewriteWebSocketURL_def)
  with assms(2) show ?thesis
    by (simp add: rewrite_ws_field_def map_of_assign)
qed

lemma rewrite_dev_field_first:
  assumes "map_of m ''devtoolsFrontendUrl'' = Some (GoString (pre @ ''ws='' @ thp @ post))"
    and "\<not> Contains (pre @ butlast (''ws='' @ thp)) (''ws='' @ thp)"
  shows "map_of (rewrite_dev_field m thp pub) ''devtoolsFrontendUrl''
           = Some (GoString (pre @ ''ws='' @ pub @ post))"
proof -
  have ne: "''ws='' @ thp \<noteq> []" by simp
  have "Replace (pre @ (''ws='' @ thp) @ post) (''ws='' @ thp) (''ws='' @ pub)
          = pre @ (''ws='' @ pub) @ post"
    using ne assms(2) by (rule Replace_first)
  then have "Replace (pre @ ''ws='' @ thp @ post) (''ws='' @ thp) (''ws='' @ pub)
          = pre @ ''ws='' @ pub @ post" by simp
  with rewrite_dev_field_string [OF assms(1), of thp pub] show ?thesis by simp
qed

lemma rewrite_dev_field_other:
  "k \<noteq> ''devtoolsFrontendUrl'' \<Longrightarrow> map_of (rewrite_dev_field m thp pub) k = map_of m k"
  by (simp add: rewrite_dev_field_def map_of_assign split: option.splits go_value.splits)

lemma rewrite_ws_field_other:
  assumes "rewrite_ws_field m thp pub = Inr m'" and "k \<noteq> ''webSocketDebuggerUrl''"
  shows "map_of m' k = map_of m k"
proof (cases "map_of m ''webSocketDebuggerUrl''")
  case None
  with assms(1) show ?thesis by (simp add: rewrite_ws_field_def)
next
  case (Some v)
  show ?thesis
  proof (cases v)
    case (GoString wsURLStr)
    with Some assms(1) obtain newWSURL
      where "m' = assign ''webSocketDebuggerUrl'' (GoString newWSURL) m"
      by (auto simp: rewrite_ws_field_def split: sum.splits)
    with assms(2) show ?thesis by (simp add: map_of_assign)
  qed (use Some assms(1) in \<open>simp_all add: rewrite_ws_field_def\<close>)
qed

lemma handleJsonVersion_first:
  assumes "patterns (targetHostPort c) = Inr (qs @ p # rs)"
    and "upstream e = JsonDoc doc" and "Unmarshal_map doc = Inr (Some m)"
    and "map_of m ''webSocketDebuggerUrl'' = Some (GoString (pre @ p @ post))"
    and "list_all (\<lambda>q. \<not> Contains (pre @ p @ post) q) qs"
    and "\<not> Contains (pre @ butlast p) p"
  shows "\<exists>m'. handleJsonVersion c r e
                 = (c, Response \<lparr>status = 200, body = Encoded (GoMap m')\<rparr>) \<and>
              map_of m' ''webSocketDebuggerUrl''
                = Some (GoString (pre @ ''wss://'' @ Host r @ post))"
proof -
  from rewrite_ws_field_first [OF assms(1,4,5,6), of "Host r"]
  obtain m' where "rewrite_ws_field m (targetHostPort c) (Host r) = Inr m'"
    and "map_of m' ''webSocketDebuggerUrl'' = Some (GoString (pre @ ''wss://'' @ Host r @ post))"
    by blast
  with assms(2,3) show ?thesis
    by (intro exI [of _ m']) (simp add: handleJsonVersion_def rewrite_version_def)
qed

lemma handleJsonList_entry:
  assumes "patterns (targetHostPort c) = Inr ps"
    and "upstream e = JsonDoc doc" and "Unmarshal_slice doc = Inr (Some ts)"
    and "i < length ts" and "ts ! i = Some m"
  shows "\<exists>ts' m'. handleJsonList c r e
                 = (c, Response \<lparr>status = 200, body = Encoded (Marshal_slice (Some ts'))\<rparr>) \<and>
              length ts' = length ts \<and> ts' ! i = Some m' \<and>
              rewrite_ws_field (rewrite_dev_field m (targetHostPort c) (Host r))
                (targetHostPort c) (Host r) = Inr m'"
proof -
  let ?thp = "targetHostPort c" and ?pub = "Host r"
  from patterns_port [OF assms(1)] obtain port where port: "port_of ?thp = Inr port" by blast
  from rewrite_targets_total [OF port, of ts ?pub]
  obtain ts' where ts': "rewrite_targets ts ?thp ?pub = Inr ts'" by blast
  then have each: "list_all2 (\<lambda>t t'. rewrite_target t ?thp ?pub = Inr t') ts ts'"
    by (rule rewrite_targets_each)
  then have len: "length ts' = length ts" by (simp add: list_all2_lengthD)
  from each assms(4) have tgt: "rewrite_target (ts ! i) ?thp ?pub = Inr (ts' ! i)"
    by (rule list_all2_nthD)
  from rewrite_ws_field_total [OF port, of "rewrite_dev_field m ?thp ?pub" ?pub]
  obtain m' where ws: "rewrite_ws_field (rewrite_dev_field m ?thp ?pub) ?thp ?pub = Inr m'"
    by blast
  with tgt assms(5) have m': "ts' ! i = Some m'" by (simp add: rewrite_target_def)
  have "handleJsonList c r e
          = (c, Response \<lparr>status = 200, body = Encoded (Marshal_slice (Some ts'))\<rparr>)"
    using assms(2,3) ts' by (simp add: handleJsonList_def)
  with len m' ws show ?thesis by blast
qed

lemma handleMetrics_target:
  "\<exists>resp. handleMetrics c r e = (c, Response resp) \<and> status resp = 200 \<and>
          occurs_in (targetHostPort c) resp"
  by (simp add: handleMetrics_def occurs_in_def Contains_prefix)

lemma handleHealth_target:
  assumes "upstream e = JsonDoc doc"
  shows "\<exists>resp. handleHealth c r e = (c, Response resp) \<and> status resp = 200 \<and>
          occurs_in (targetHostPort c) resp"
  using assms by (simp add: handleHealth_def occurs_in_def Contains_prefix)

lemma proxy_ServeHTTP_forwarded:
  "forwarded e = Forwarded resp \<Longrightarrow> proxy_ServeHTTP c r e = (c, Response resp)"
  by (simp add: proxy_ServeHTTP_def)

text \<open>
  Claim C1, as the code has it. Let \<open>p\<close> be one of the three patterns of the target, with
  the patterns \<open>qs\<close> before it, and let the \<^verbatim>\<open>webSocketDebuggerUrl\<close> of a decoded
  map \<open>m\<close> be \<open>pre @ p @ post\<close>, where no pattern of \<open>qs\<close> occurs in the URL and \<open>p\<close> does not
  occur before this place. Then:

    \<^item> when \<open>m\<close> is the decoded version document, \<^verbatim>\<open>/json/version\<close> answers 200
      and the field holds \<open>pre\<close>, \<^verbatim>\<open>wss://\<close>, the request's \<^verbatim>\<open>Host\<close>,
      \<open>post\<close>;
    \<^item> when \<open>m\<close> is entry \<open>i\<close> of the decoded list, the list handler answers 200 with as
      many entries, and in entry \<open>i\<close> the field holds the same rewritten URL; if the
      entry's \<^verbatim>\<open>devtoolsFrontendUrl\<close> holds \<^verbatim>\<open>ws=<target>\<close>, the
      first one in it is \<^verbatim>\<open>ws=<Host>\<close> in the answer;
    \<^item> the rewritten URL holds none of the three patterns when \<^verbatim>\<open>ws://\<close>
      occurs neither in \<open>pre\<close> nor in the \<^verbatim>\<open>Host\<close> followed by \<open>post\<close>;
    \<^item> the health handler (the upstream having answered) and the metrics handler answer
      200 with a response in which the target address occurs;
    \<^item> a response the reverse proxy received from the upstream is passed on as it is.
\<close>

theorem internal_address_in_responses:
  assumes "patterns (targetHostPort c) = Inr (qs @ p # rs)" and "upstream e = JsonDoc doc"
    and "map_of m ''webSocketDebuggerUrl'' = Some (GoString (pre @ p @ post))"
    and "list_all (\<lambda>q. \<not> Contains (pre @ p @ post) q) qs"
    and "\<not> Contains (pre @ butlast p) p"
  shows "(Unmarshal_map doc = Inr (Some m) \<longrightarrow>
          (\<exists>m'. handleJsonVersion c r e
                  = (c, Response \<lparr>status = 200, body = Encoded (GoMap m')\<rparr>) \<and>
                map_of m' ''webSocketDebuggerUrl''
                  = Some (GoString (pre @ ''wss://'' @ Host r @ post)))) \<and>
         (Unmarshal_slice doc = Inr (Some ts) \<and> i < length ts \<and> ts ! i = Some m \<longrightarrow>
          (\<exists>ts' m'. handleJsonList c r e
                  = (c, Response \<lparr>status = 200,
                                  body = Encoded (Marshal_slice (Some ts'))\<rparr>) \<and>
                length ts' = length ts \<and> ts' ! i = Some m' \<and>
                map_of m' ''webSocketDebuggerUrl''
                  = Some (GoString (pre @ ''wss://'' @ Host r @ post)) \<and>
                (map_of m ''devtoolsFrontendUrl''
                   = Some (GoString (dpre @ ''ws='' @ targetHostPort c @ dpost)) \<and>
                 \<not> Contains (dpre @ butlast (''ws='' @ targetHostPort c))
                      (''ws='' @ targetHostPort c) \<longrightarrow>
                 map_of m' ''devtoolsFrontendUrl''
                   = Some (GoString (dpre @ ''ws='' @ Host r @ dpost))))) \<and>
         (\<not> Contains pre ''ws://'' \<and> \<not> Contains (Host r @ post) ''ws://'' \<longrightarrow>
          list_all (\<lambda>q. \<not> Contains (pre @ ''wss://'' @ Host r @ post) q) (qs @ p # rs)) \<and>
         (\<exists>resp. handleHealth c r e = (c, Response resp) \<and> status resp = 200 \<and>
                 occurs_in (targetHostPort c) resp) \<and>
         (\<exists>resp. handleMetrics c r e = (c, Response resp) \<and> status resp = 200 \<and>
                 occurs_in (targetHostPort c) resp) \<and>
         (forwarded e = Forwarded fresp \<longrightarrow> proxy_ServeHTTP c r e = (c, Response fresp))"
proof (intro conjI impI)
  assume "Unmarshal_map doc = Inr (Some m)"
  with assms show "\<exists>m'. handleJsonVersion c r e
                  = (c, Response \<lparr>status = 200, body = Encoded (GoMap m')\<rparr>) \<and>
                map_of m' ''webSocketDebuggerUrl''
                  = Some (GoString (pre @ ''wss://'' @ Host r @ post))"
    by (intro handleJsonVersion_first)
next
  let ?thp = "targetHostPort c" and ?pub = "Host r"
  assume h: "Unmarshal_slice doc = Inr (Some ts) \<and> i < length ts \<and> ts ! i = Some m"
  with handleJsonList_entry [OF assms(1,2), of ts i m r]
  obtain ts' m' where resp: "handleJsonList c r e
                 = (c, Response \<lparr>status = 200, body = Encoded (Marshal_slice (Some ts'))\<rparr>)"
    and len: "length ts' = length ts" and m': "ts' ! i = Some m'"
    and ws: "rewrite_ws_field (rewrite_dev_field m ?thp ?pub) ?thp ?pub = Inr m'"
    by blast
  have "map_of (rewrite_dev_field m ?thp ?pub) ''webSocketDebuggerUrl''
          = Some (GoString (pre @ p @ post))"
    using assms(3) by (simp add: rewrite_dev_field_other)
  from rewrite_ws_field_first [OF assms(1) this assms(4,5), of ?pub] ws
  have wsf: "map_of m' ''webSocketDebuggerUrl'' = Some (GoString (pre @ ''wss://'' @ ?pub @ post))"
    by simp
  have devf: "map_of m' ''devtoolsFrontendUrl'' = Some (GoString (dpre @ ''ws='' @ ?pub @ dpost))"
    if "map_of m ''devtoolsFrontendUrl'' = Some (GoString (dpre @ ''ws='' @ ?thp @ dpost))"
      and "\<not> Contains (dpre @ butlast (''ws='' @ ?thp)) (''ws='' @ ?thp)"
  proof -
    have "map_of m' ''devtoolsFrontendUrl''
            = map_of (rewrite_dev_field m ?thp ?pub) ''devtoolsFrontendUrl''"
      using ws by (rule rewrite_ws_field_other) simp
    with rewrite_dev_field_first [OF that, of ?pub] show ?thesis by simp
  qed
  from resp len m' wsf devf
  show "\<exists>ts' m'. handleJsonList c r e
                  = (c, Response \<lparr>status = 200,
                                  body = Encoded (Marshal_slice (Some ts'))\<rparr>) \<and>
                length ts' = length ts \<and> ts' ! i = Some m' \<and>
                map_of m' ''webSocketDebuggerUrl''
                  = Some (GoString (pre @ ''wss://'' @ Host r @ post)) \<and>
                (map_of m ''devtoolsFrontendUrl''
                   = Some (GoString (dpre @ ''ws='' @ targetHostPort c @ dpost)) \<and>
                 \<not> Contains (dpre @ butlast (''ws='' @ targetHostPort c))
                      (''ws='' @ targetHostPort c) \<longrightarrow>
                 map_of m' ''devtoolsFrontendUrl''
                   = Some (GoString (dpre @ ''ws='' @ Host r @ dpost)))"
    by blast
next
  assume "\<not> Contains pre ''ws://'' \<and> \<not> Contains (Host r @ post) ''ws://''"
  with assms(1) show "list_all (\<lambda>q. \<not> Contains (pre @ ''wss://'' @ Host r @ post) q) (qs @ p # rs)"
    by (intro rewritten_free) simp_all
next
  show "\<exists>resp. handleHealth c r e = (c, Response resp) \<and> status resp = 200 \<and>
                 occurs_in (targetHostPort c) resp"
    using assms(2) by (rule handleHealth_target)
next
  show "\<exists>resp. handleMetrics c r e = (c, Response resp) \<and> status resp = 200 \<and>
                 occurs_in (targetHostPort c) resp"
    by (rule handleMetrics_target)
next
  assume "forwarded e = Forwarded fresp"
  then show "proxy_ServeHTTP c r e = (c, Response fresp)" by (rule proxy_ServeHTTP_forwarded)
qed

text \<open>
  The theorem at a proxy for port 9222, asked as \<^verbatim>\<open>9223-host.example\<close>: the
  pattern is the second of the three, \<^verbatim>\<open>ws://127.0.0.1:9222\<close>; the same page is
  the version document and the second entry of a list whose first entry is
  \<^verbatim>\<open>null\<close>.
\<close>

theorem internal_address_in_responses_witness:
  "patterns (targetHostPort (NewChromeDevToolsClient 9222 30 0))
     = Inr ([''ws://localhost:9222''] @ ''ws://127.0.0.1:9222'' # [''ws://localhost:9222'']) \<and>
   list_all (\<lambda>q. \<not> Contains ([] @ ''ws://127.0.0.1:9222'' @ ''/devtools/page/A'') q)
     [''ws://localhost:9222''] \<and>
   \<not> Contains ([] @ butlast ''ws://127.0.0.1:9222'') ''ws://127.0.0.1:9222'' \<and>
   Unmarshal_map (JObject
       [(''id'', JString ''A''),
        (''webSocketDebuggerUrl'', JString ''ws://127.0.0.1:9222/devtools/page/A''),
        (''devtoolsFrontendUrl'',
         JString ''/devtools/inspector.html?ws=localhost:9222/devtools/page/A'')])
     = Inr (Some [(''devtoolsFrontendUrl'',
                   GoString ''/devtools/inspector.html?ws=localhost:9222/devtools/page/A''),
                  (''id'', GoString ''A''),
                  (''webSocketDebuggerUrl'', GoString ''ws://127.0.0.1:9222/devtools/page/A'')]) \<and>
   (\<exists>m'. handleJsonVersion (NewChromeDevToolsClient 9222 30 0)
            \<lparr>Method = ''GET'', Path = ''/json/version'', Host = ''9223-host.example'', Header = []\<rparr>
            \<lparr>upstream = JsonDoc (JObject
                 [(''id'', JString ''A''),
                  (''webSocketDebuggerUrl'', JString ''ws://127.0.0.1:9222/devtools/page/A''),
                  (''devtoolsFrontendUrl'',
                   JString ''/devtools/inspector.html?ws=localhost:9222/devtools/page/A'')]),
             forwarded = Forwarded \<lparr>status = 200, body = Literal ''{}''\<rparr>,
             uptime_String = ''1m0s'', uptime_Seconds = 60, unix_now = 1700000000\<rparr>
          = (NewChromeDevToolsClient 9222 30 0,
             Response \<lparr>status = 200, body = Encoded (GoMap m')\<rparr>) \<and>
         map_of m' ''webSocketDebuggerUrl''
          = Some (GoString ''wss://9223-host.example/devtools/page/A'')) \<and>
   Unmarshal_slice (JArray [JNull, JObject
       [(''id'', JString ''A''),
        (''webSocketDebuggerUrl'', JString ''ws://127.0.0.1:9222/devtools/page/A''),
        (''devtoolsFrontendUrl'',
         JString ''/devtools/inspector.html?ws=localhost:9222/devtools/page/A'')]])
     = Inr (Some [None,
                  Some [(''devtoolsFrontendUrl'',
                         GoString ''/devtools/inspector.html?ws=localhost:9222/devtools/page/A''),
                        (''id'', GoString ''A''),
                        (''webSocketDebuggerUrl'',
                         GoString ''ws://127.0.0.1:9222/devtools/page/A'')]]) \<and>
   \<not> Contains (''/devtools/inspector.html?'' @ butlast ''ws=localhost:9222'') ''ws=localhost:9222'' \<and>
   (\<exists>ts' m'. handleJsonList (NewChromeDevToolsClient 9222 30 0)
            \<lparr>Method = ''GET'', Path = ''/json/list'', Host = ''9223-host.example'', Header = []\<rparr>
            \<lparr>upstream = JsonDoc (JArray [JNull, JObject
                 [(''id'', JString ''A''),
                  (''webSocketDebuggerUrl'', JString ''ws://127.0.0.1:9222/devtools/page/A''),
                  (''devtoolsFrontendUrl'',
                   JString ''/devtools/inspector.html?ws=localhost:9222/devtools/page/A'')]]),
             forwarded = Forwarded \<lparr>status = 200, body = Literal ''{}''\<rparr>,
             uptime_String = ''1m0s'', uptime_Seconds = 60, unix_now = 1700000000\<rparr>
          = (NewChromeDevToolsClient 9222 30 0,
             Response \<lparr>status = 200, body = Encoded (Marshal_slice (Some ts'))\<rparr>) \<and>
         length ts' = 2 \<and> ts' ! 1 = Some m' \<and>
         map_of m' ''webSocketDebuggerUrl''
          = Some (GoString ''wss://9223-host.example/devtools/page/A'') \<and>
         map_of m' ''devtoolsFrontendUrl''
          = Some (GoString ''/devtools/inspector.html?ws=9223-host.example/devtools/page/A'')) \<and>
   \<not> Contains [] ''ws://'' \<and> \<not> Contains (''9223-host.example'' @ ''/devtools/page/A'') ''ws://'' \<and>
   list_all (\<lambda>q. \<not> Contains ''wss://9223-host.example/devtools/page/A'' q)
     [''ws://localhost:9222'', ''ws://127.0.0.1:9222'', ''ws://localhost:9222''] \<and>
   (\<exists>resp. handleHealth (NewChromeDevToolsClient 9222 30 0)
            \<lparr>Method = ''GET'', Path = ''/health'', Host = ''9223-host.example'', Header = []\<rparr>
            \<lparr>upstream = JsonDoc (JArray []),
             forwarded = Forwarded \<lparr>status = 200, body = Literal ''{}''\<rparr>,
             uptime_String = ''1m0s'', uptime_Seconds = 60, unix_now = 1700000000\<rparr>
          = (NewChromeDevToolsClient 9222 30 0, Response resp) \<and>
         status resp = 200 \<and> occurs_in ''localhost:9222'' resp) \<and>
   (\<exists>resp. handleMetrics (NewChromeDevToolsClient 9222 30 0)
            \<lparr>Method = ''GET'', Path = ''/metrics'', Host = ''9223-host.example'', Header = []\<rparr>
            \<lparr>upstream = JsonDoc (JArray []),
             forwarded = Forwarded \<lparr>status = 200, body = Literal ''{}''\<rparr>,
             uptime_String = ''1m0s'', uptime_Seconds = 60, unix_now = 1700000000\<rparr>
          = (NewChromeDevToolsClient 9222 30 0, Response resp) \<and>
         status resp = 200 \<and> occurs_in ''localhost:9222'' resp) \<and>
   proxy_ServeHTTP (NewChromeDevToolsClient 9222 30 0)
       \<lparr>Method = ''PUT'', Path = ''/json/new'', Host = ''9223-host.example'', Header = []\<rparr>
       \<lparr>upstream = JsonDoc (JArray []),
        forwarded = Forwarded \<lparr>status = 200, body = Literal ''{}''\<rparr>,
        uptime_String = ''1m0s'', uptime_Seconds = 60, unix_now = 1700000000\<rparr>
     = (NewChromeDevToolsClient 9222 30 0,
        Response \<lparr>status = 200, body = Literal ''{}''\<rparr>)"
proof -
  let ?c = "NewChromeDevToolsClient 9222 30 0"
  let ?jo = "JObject
       [(''id'', JString ''A''),
        (''webSocketDebuggerUrl'', JString ''ws://127.0.0.1:9222/devtools/page/A''),
        (''devtoolsFrontendUrl'',
         JString ''/devtools/inspector.html?ws=localhost:9222/devtools/page/A'')]"
  let ?m = "[(''devtoolsFrontendUrl'',
              GoString ''/devtools/inspector.html?ws=localhost:9222/devtools/page/A''),
             (''id'', GoString ''A''),
             (''webSocketDebuggerUrl'', GoString ''ws://127.0.0.1:9222/devtools/page/A'')]"
  let ?env = "\<lambda>d. \<lparr>upstream = JsonDoc d,
                     forwarded = Forwarded \<lparr>status = 200, body = Literal ''{}''\<rparr>,
                     uptime_String = ''1m0s'', uptime_Seconds = 60, unix_now = 1700000000\<rparr>"
  let ?rv = "\<lparr>Method = ''GET'', Path = ''/json/version'', Host = ''9223-host.example'', Header = []\<rparr>"
  let ?rl = "\<lparr>Method = ''GET'', Path = ''/json/list'', Host = ''9223-host.example'', Header = []\<rparr>"
  let ?rh = "\<lparr>Method = ''GET'', Path = ''/health'', Host = ''9223-host.example'', Header = []\<rparr>"
  let ?rm = "\<lparr>Method = ''GET'', Path = ''/metrics'', Host = ''9223-host.example'', Header = []\<rparr>"
  let ?rp = "\<lparr>Method = ''PUT'', Path = ''/json/new'', Host = ''9223-host.example'', Header = []\<rparr>"
  have thp: "targetHostPort ?c = ''localhost:9222''" by (simp add: client_9222)
  have p: "patterns (targetHostPort ?c)
     = Inr ([''ws://localhost:9222''] @ ''ws://127.0.0.1:9222'' # [''ws://localhost:9222''])"
    by (simp add: thp patterns_def port_of_def index1_def)
  have u: "upstream (?env d) = JsonDoc d" for d by simp
  have f: "forwarded (?env d) = Forwarded \<lparr>status = 200, body = Literal ''{}''\<rparr>" for d
    by simp
  have w: "map_of ?m ''webSocketDebuggerUrl''
             = Some (GoString ([] @ ''ws://127.0.0.1:9222'' @ ''/devtools/page/A''))" by simp
  have q: "list_all (\<lambda>q. \<not> Contains ([] @ ''ws://127.0.0.1:9222'' @ ''/devtools/page/A'') q)
             [''ws://localhost:9222'']" by simp
  have b: "\<not> Contains ([] @ butlast ''ws://127.0.0.1:9222'') ''ws://127.0.0.1:9222''" by simp
  have dv: "Unmarshal_map ?jo = Inr (Some ?m)" by (simp add: Unmarshal_object_def)
  have dl: "Unmarshal_slice (JArray [JNull, ?jo]) = Inr (Some [None, Some ?m])"
    by (simp add: Unmarshal_object_def)
  have d: "map_of ?m ''devtoolsFrontendUrl''
             = Some (GoString (''/devtools/inspector.html?'' @ ''ws='' @ targetHostPort ?c
                               @ ''/devtools/page/A''))"
    by (simp add: thp)
  have db: "\<not> Contains (''/devtools/inspector.html?'' @ butlast ''ws=localhost:9222'')
              ''ws=localhost:9222''" by simp
  then have db': "\<not> Contains (''/devtools/inspector.html?'' @ butlast (''ws='' @ targetHostPort ?c))
              (''ws='' @ targetHostPort ?c)" by (simp add: thp)
  have n: "\<not> Contains [] ''ws://'' \<and> \<not> Contains (''9223-host.example'' @ ''/devtools/page/A'') ''ws://''"
    by simp
  from internal_address_in_responses [OF p u w q b, where r = ?rv] dv
  have 1: "\<exists>m'. handleJsonVersion ?c ?rv (?env ?jo)
          = (?c, Response \<lparr>status = 200, body = Encoded (GoMap m')\<rparr>) \<and>
         map_of m' ''webSocketDebuggerUrl''
          = Some (GoString ''wss://9223-host.example/devtools/page/A'')"
    by simp
  from internal_address_in_responses [OF p u w q b, where r = ?rl and ts = "[None, Some ?m]"
      and i = 1 and dpre = "''/devtools/inspector.html?''" and dpost = "''/devtools/page/A''"]
    dl d db'
  have 2: "\<exists>ts' m'. handleJsonList ?c ?rl (?env (JArray [JNull, ?jo]))
          = (?c, Response \<lparr>status = 200, body = Encoded (Marshal_slice (Some ts'))\<rparr>) \<and>
         length ts' = 2 \<and> ts' ! 1 = Some m' \<and>
         map_of m' ''webSocketDebuggerUrl''
          = Some (GoString ''wss://9223-host.example/devtools/page/A'') \<and>
         map_of m' ''devtoolsFrontendUrl''
          = Some (GoString ''/devtools/inspector.html?ws=9223-host.example/devtools/page/A'')"
    by (simp add: numeral_2_eq_2)
  from internal_address_in_responses [OF p u w q b, where r = ?rv] n
  have 3: "list_all (\<lambda>q. \<not> Contains ''wss://9223-host.example/devtools/page/A'' q)
     [''ws://localhost:9222'', ''ws://127.0.0.1:9222'', ''ws://localhost:9222'']"
    by simp
  from internal_address_in_responses [OF p u w q b, where r = ?rh and doc = "JArray []"]
  have 4: "\<exists>resp. handleHealth ?c ?rh (?env (JArray [])) = (?c, Response resp) \<and>
         status resp = 200 \<and> occurs_in ''localhost:9222'' resp"
    by (simp add: thp)
  from internal_address_in_responses [OF p u w q b, where r = ?rm and doc = "JArray []"]
  have 5: "\<exists>resp. handleMetrics ?c ?rm (?env (JArray [])) = (?c, Response resp) \<and>
         status resp = 200 \<and> occurs_in ''localhost:9222'' resp"
    by (simp add: thp)
  from internal_address_in_responses [OF p u w q b, where r = ?rp and doc = "JArray []"
      and fresp = "\<lparr>status = 200, body = Literal ''{}''\<rparr>"]
  have 6: "proxy_ServeHTTP ?c ?rp (?env (JArray []))
     = (?c, Response \<lparr>status = 200, body = Literal ''{}''\<rparr>)"
    by simp
  from p q b dv 1 dl db 2 n 3 4 5 6 show ?thesis by blast
qed

text \<open>
  Claim C1 as it is written fails in every kind of response it names. The metrics
  response and the health response of a proxy for port 9222 report
  \<^verbatim>\<open>localhost:9222\<close>. In the list of one page, the field \<^verbatim>\<open>url\<close> and
  the second occurrence in \<^verbatim>\<open>webSocketDebuggerUrl\<close> keep it. And a forwarded
  response that names \<^verbatim>\<open>127.0.0.1:9222\<close> is passed on with it.
\<close>

theorem internal_address_in_responses_counterexample:
  "ServeHTTP (NewChromeDevToolsClient 9222 30 0)
      \<lparr>Method = ''GET'', Path = ''/metrics'', Host = ''9223-host.example'', Header = []\<rparr>
      \<lparr>upstream = GetFailed ''connection refused'', forwarded = ForwardFailed ''connection refused'',
       uptime_String = ''1m0s'', uptime_Seconds = 60, unix_now = 1700000000\<rparr>
     = (\<lparr>targetHostPort = ''localhost:9222'', clientTimeout = 30, proxyTarget = ''localhost:9222'',
         requestCount = 1, errorCount = 0, startTime = 0\<rparr>,
        Response \<lparr>status = 200,
                  body = EncodedLine (GoMap [(''errors_total'', GoInt64 0),
                                             (''requests_total'', GoInt64 1),
                                             (''target_host'', GoString ''localhost:9222''),
                                             (''uptime_seconds'', GoFloat64 60)])\<rparr>) \<and>
   occurs_in ''localhost:9222''
     \<lparr>status = 200,
      body = EncodedLine (GoMap [(''errors_total'', GoInt64 0),
                                 (''requests_total'', GoInt64 1),
                                 (''target_host'', GoString ''localhost:9222''),
                                 (''uptime_seconds'', GoFloat64 60)])\<rparr> \<and>
   ServeHTTP (NewChromeDevToolsClient 9222 30 0)
      \<lparr>Method = ''GET'', Path = ''/health'', Host = ''9223-host.example'', Header = []\<rparr>
      \<lparr>upstream = JsonDoc (JObject [(''Browser'', JString ''Chrome/138.0.7204.168'')]),
       forwarded = ForwardFailed ''connection refused'',
       uptime_String = ''1m0s'', uptime_Seconds = 60, unix_now = 1700000000\<rparr>
     = (\<lparr>targetHostPort = ''localhost:9222'', clientTimeout = 30, proxyTarget = ''localhost:9222'',
         requestCount = 1, errorCount = 0, startTime = 0\<rparr>,
        Response \<lparr>status = 200,
                  body = EncodedLine (GoMap [(''status'', GoString ''healthy''),
                                             (''target'', GoString ''localhost:9222''),
                                             (''timestamp'', GoInt64 1700000000),
                                             (''uptime'', GoString ''1m0s'')])\<rparr>) \<and>
   occurs_in ''localhost:9222''
     \<lparr>status = 200,
      body = EncodedLine (GoMap [(''status'', GoString ''healthy''),
                                 (''target'', GoString ''localhost:9222''),
                                 (''timestamp'', GoInt64 1700000000),
                                 (''uptime'', GoString ''1m0s'')])\<rparr> \<and>
   ServeHTTP (NewChromeDevToolsClient 9222 30 0)
      \<lparr>Method = ''GET'', Path = ''/json/list'', Host = ''9223-host.example'', Header = []\<rparr>
      \<lparr>upstream = JsonDoc (JArray [JObject
           [(''id'', JString ''A''),
            (''url'', JString ''http://localhost:9222/json/version''),
            (''webSocketDebuggerUrl'',
             JString ''ws://localhost:9222/devtools/page/A?next=ws://localhost:9222'')]]),
       forwarded = ForwardFailed ''connection refused'',
       uptime_String = ''1m0s'', uptime_Seconds = 60, unix_now = 1700000000\<rparr>
     = (\<lparr>targetHostPort = ''localhost:9222'', clientTimeout = 30, proxyTarget = ''localhost:9222'',
         requestCount = 1, errorCount = 0, startTime = 0\<rparr>,
        Response \<lparr>status = 200,
                  body = Encoded (GoSlice [GoMap
                    [(''id'', GoString ''A''),
                     (''url'', GoString ''http://localhost:9222/json/version''),
                     (''webSocketDebuggerUrl'',
                      GoString ''wss://9223-host.example/devtools/page/A?next=ws://localhost:9222'')]])\<rparr>) \<and>
   Contains ''http://localhost:9222/json/version'' ''localhost:9222'' \<and>
   Contains ''wss://9223-host.example/devtools/page/A?next=ws://localhost:9222'' ''localhost:9222'' \<and>
   ServeHTTP (NewChromeDevToolsClient 9222 30 0)
      \<lparr>Method = ''GET'', Path = ''/json/protocol'', Host = ''9223-host.example'', Header = []\<rparr>
      \<lparr>upstream = GetFailed ''connection refused'',
       forwarded = Forwarded \<lparr>status = 200, body = Literal ''see http://127.0.0.1:9222/json''\<rparr>,
       uptime_String = ''1m0s'', uptime_Seconds = 60, unix_now = 1700000000\<rparr>
     = (\<lparr>targetHostPort = ''localhost:9222'', clientTimeout = 30, proxyTarget = ''localhost:9222'',
         requestCount = 1, errorCount = 0, startTime = 0\<rparr>,
        Response \<lparr>status = 200, body = Literal ''see http://127.0.0.1:9222/json''\<rparr>) \<and>
   occurs_in ''127.0.0.1:9222'' \<lparr>status = 200, body = Literal ''see http://127.0.0.1:9222/json''\<rparr>"
  by (simp add: ServeHTTP_def Let_def handleMetrics_def handleHealth_def handleJsonList_def
      proxy_ServeHTTP_def isWebSocketUpgrade_def client_9222 occurs_in_def Unmarshal_object_def
      rewrite_target_def rewrite_ws_field_def rewrite_dev_field_def rewriteWebSocketURL_def
      patterns_def port_of_def index1_def)

end
